theory Spec2Isabelle
  imports Complex_Main "HOL-Library.Word"
begin

unbundle bit_operations_syntax

section \<open>JavaScript values used by the relay\<close>

text \<open>
  The embedding follows the enhanced variant of the relay (the first program of
  \<^verbatim>\<open>src/unnamed/part_000\<close>) and, for symbol normalisation, also the long-only variant
  (\<^verbatim>\<open>src/server.js\<close>, lines 64 to 70).

  Numbers are exact rationals plus \<^verbatim>\<open>NaN\<close>: the rounding of IEEE doubles and the two
  infinities are not modelled. Strings are lists of 8-bit characters; \<^verbatim>\<open>trim\<close>,
  \<^verbatim>\<open>toUpperCase\<close> and \<^verbatim>\<open>toLowerCase\<close> are modelled on ASCII text, where they
  act on the six ASCII white-space characters and on the letters a to z only.
\<close>

datatype jsnum = Num rat | NaN

text \<open>The truthy content of a number that may be absent: \<^verbatim>\<open>undefined\<close>, \<^verbatim>\<open>0\<close> and
  \<^verbatim>\<open>NaN\<close> are falsy.\<close>

fun truthyVal :: "jsnum option \<Rightarrow> rat option" where
  "truthyVal (Some (Num r)) = (if r = 0 then None else Some r)"
| "truthyVal (Some NaN) = None"
| "truthyVal None = None"

text \<open>\<^verbatim>\<open>a || b\<close> on two such numbers, read for its truthy content.\<close>

definition orElse :: "rat option \<Rightarrow> rat option \<Rightarrow> rat option" where
  "orElse a b = (case a of Some r \<Rightarrow> Some r | None \<Rightarrow> b)"

fun jmul :: "jsnum \<Rightarrow> jsnum \<Rightarrow> jsnum" where
  "jmul (Num a) (Num b) = Num (a * b)"
| "jmul _ _ = NaN"

text \<open>Division by a number that the caller has already found truthy (so not zero).\<close>

fun jdiv :: "jsnum \<Rightarrow> rat \<Rightarrow> jsnum" where
  "jdiv (Num a) p = Num (a / p)"
| "jdiv NaN p = NaN"

datatype json =
    JNull
  | JBool bool
  | JNum rat
  | JStr string
  | JArr "json list"
  | JObj "(string \<times> json) list"

fun truthy :: "json option \<Rightarrow> bool" where
  "truthy None = False"
| "truthy (Some JNull) = False"
| "truthy (Some (JBool b)) = b"
| "truthy (Some (JNum r)) = (r \<noteq> 0)"
| "truthy (Some (JStr s)) = (s \<noteq> [])"
| "truthy (Some (JArr xs)) = True"
| "truthy (Some (JObj kvs)) = True"

datatype error =
    PriceUnavailable string
  | ExchangeError string
  | TypeError
  | RangeError

section \<open>Strings\<close>

definition isSpace :: "char \<Rightarrow> bool" where
  "isSpace c = (let n = (of_char c :: nat) in (9 \<le> n \<and> n \<le> 13) \<or> n = 32)"

definition trim :: "string \<Rightarrow> string" where
  "trim s = rev (dropWhile isSpace (rev (dropWhile isSpace s)))"

text \<open>\<^verbatim>\<open>s.replace(c, r)\<close> with a string pattern of one character: only the first
  occurrence is replaced.\<close>

fun replaceFirst :: "char \<Rightarrow> string \<Rightarrow> string \<Rightarrow> string" where
  "replaceFirst c r [] = []"
| "replaceFirst c r (x # xs) = (if x = c then r @ xs else x # replaceFirst c r xs)"

definition toUpperChar :: "char \<Rightarrow> char" where
  "toUpperChar c =
     (let n = (of_char c :: nat) in if 97 \<le> n \<and> n \<le> 122 then char_of (n - 32) else c)"

definition toUpperCase :: "string \<Rightarrow> string" where
  "toUpperCase s = map toUpperChar s"

definition toLowerChar :: "char \<Rightarrow> char" where
  "toLowerChar c =
     (let n = (of_char c :: nat) in if 65 \<le> n \<and> n \<le> 90 then char_of (n + 32) else c)"

definition toLowerCase :: "string \<Rightarrow> string" where
  "toLowerCase s = map toLowerChar s"

text \<open>\<^verbatim>\<open>s.split(c)\<close>: always at least one part.\<close>

fun splitOn :: "char \<Rightarrow> string \<Rightarrow> string list" where
  "splitOn c [] = [[]]"
| "splitOn c (x # xs) =
     (if x = c then [] # splitOn c xs
      else (case splitOn c xs of [] \<Rightarrow> [[x]] | p # ps \<Rightarrow> (x # p) # ps))"

text \<open>\<^verbatim>\<open>text.split(/\s+/).filter(Boolean)\<close>: the maximal runs of characters that are
  not white space. The first argument is the run read so far, reversed.\<close>

fun tokensFrom :: "string \<Rightarrow> string \<Rightarrow> string list" where
  "tokensFrom cur [] = (if cur = [] then [] else [rev cur])"
| "tokensFrom cur (c # cs) =
     (if isSpace c then (if cur = [] then tokensFrom [] cs else rev cur # tokensFrom [] cs)
      else tokensFrom (c # cur) cs)"

definition tokens :: "string \<Rightarrow> string list" where
  "tokens s = tokensFrom [] s"

definition nthOpt :: "'a list \<Rightarrow> nat \<Rightarrow> 'a option" where
  "nthOpt xs i = (if i < length xs then Some (xs ! i) else None)"

section \<open>Symbol normalisation\<close>

text \<open>The step \<^verbatim>\<open>if (!s.includes("/") && s.length >= 6) s = s.slice(0, 3) + "/" + s.slice(3)\<close>.\<close>

definition insertSep :: "string \<Rightarrow> string" where
  "insertSep s =
     (if CHR ''/'' \<notin> set s \<and> 6 \<le> length s then take 3 s @ ''/'' @ drop 3 s else s)"

text \<open>The body of \<^verbatim>\<open>normalizeSymbol\<close> after its guard, shared by all variants.\<close>

definition normalizeCore :: "string \<Rightarrow> string" where
  "normalizeCore inputSymbol =
     toUpperCase (insertSep
       (replaceFirst CHR ''_'' ''/'' (replaceFirst CHR ''-'' ''/'' (trim inputSymbol))))"

text \<open>\<^verbatim>\<open>normalizeSymbol\<close> of \<^verbatim>\<open>part_000\<close>, line 112: \<open>None\<close> is \<^verbatim>\<open>null\<close> (or
  \<^verbatim>\<open>undefined\<close>), and the empty string is falsy as well.\<close>

fun normalizeSymbol :: "string option \<Rightarrow> string option" where
  "normalizeSymbol None = None"
| "normalizeSymbol (Some s) = (if s = [] then None else Some (normalizeCore s))"

text \<open>\<^verbatim>\<open>normalizeSymbol\<close> of the long-only variant (\<^verbatim>\<open>server.js\<close>, line 64): a falsy
  input yields the configured default symbol, given here as the first argument.\<close>

fun normalizeSymbol_long :: "string \<Rightarrow> string option \<Rightarrow> string" where
  "normalizeSymbol_long dflt None = dflt"
| "normalizeSymbol_long dflt (Some s) = (if s = [] then dflt else normalizeCore s)"

text \<open>The invariant the data model states for a symbol, in the specification's words:
  upper case, and exactly one separator between base and quote.\<close>

definition canonicalSymbol :: "string \<Rightarrow> bool" where
  "canonicalSymbol s \<longleftrightarrow> toUpperCase s = s \<and> count_list s CHR ''/'' = 1"

section \<open>Duplicate guard\<close>

type_synonym recentPayloads = "string \<rightharpoonup> int"

definition DUP_TTL_MS :: int where
  "DUP_TTL_MS = 30 * 1000"

text \<open>The purge loop of \<^verbatim>\<open>isDuplicate\<close>: every entry with \<^verbatim>\<open>now - t > DUP_TTL_MS\<close> is
  deleted.\<close>

definition purge :: "int \<Rightarrow> recentPayloads \<Rightarrow> recentPayloads" where
  "purge now recent =
     (\<lambda>k. case recent k of
            None \<Rightarrow> None
          | Some t \<Rightarrow> if now - t > DUP_TTL_MS then None else Some t)"

text \<open>\<^verbatim>\<open>isDuplicate(key)\<close>, with the clock reading \<^verbatim>\<open>Date.now()\<close> and the map
  \<^verbatim>\<open>recentPayloads\<close> passed in, and the updated map returned.\<close>

definition isDuplicate :: "int \<Rightarrow> string \<Rightarrow> recentPayloads \<Rightarrow> bool \<times> recentPayloads" where
  "isDuplicate now key recent =
     (let purged = purge now recent
      in if purged key \<noteq> None then (True, purged)
         else (False, purged(key \<mapsto> now)))"

section \<open>Configuration and the exchange gateway\<close>

text \<open>The constants read from the environment at start-up. \<^verbatim>\<open>parseFloat\<close> of a
  variable that is not a number is \<^verbatim>\<open>NaN\<close>.\<close>

record config =
  EXCHANGE_TYPE :: string
  API_KEY :: string
  API_SECRET :: string
  SAFETY_BUFFER :: jsnum
  MIN_ORDER_AMOUNT :: jsnum
  DEFAULT_SYMBOL :: string
  USE_LEVERAGE_FOR_SWAPS :: bool
  LEVERAGE :: jsnum
  WEBHOOK_SECRET :: string
  WEBHOOK_HEADER :: string

text \<open>A market of \<^verbatim>\<open>exchange.markets\<close>. The field \<open>limits_amount_min\<close> is
  \<^verbatim>\<open>market.limits.amount.min\<close>, and \<open>None\<close> when a link of that chain is missing.\<close>

record market =
  base :: "string option"
  quote :: "string option"
  mtype :: "string option"
  limits_amount_min :: "jsnum option"

record balanceEntry =
  free :: "jsnum option"
  total :: "jsnum option"

record ticker =
  tk_last :: "jsnum option"
  tk_close :: "jsnum option"
  tk_bid :: "jsnum option"

type_synonym order = string

text \<open>
  The exchange client as one request sees it. \<open>markets\<close> is the snapshot
  \<^verbatim>\<open>exchange.markets\<close> after \<^verbatim>\<open>loadMarkets\<close> (which never throws), in key order, and
  \<open>None\<close> when it is undefined. A call that throws or rejects returns \<open>Inl\<close>;
  \<open>fetchTicker\<close> is read through its \<^verbatim>\<open>.catch\<close>, so a rejection is \<open>None\<close>.
  \<open>amountToPrecision\<close> is \<open>None\<close> when the client has no such method; otherwise it
  stands for \<^verbatim>\<open>parseFloat(exchange.amountToPrecision(symbol, amount))\<close>, and is
  \<open>None\<close> at the arguments where the method throws.
\<close>

record exchange =
  markets :: "(string \<times> market) list option"
  fetchBalance :: "error + (string \<rightharpoonup> balanceEntry)"
  fetchTicker :: "string \<Rightarrow> ticker option"
  amountToPrecision :: "(string \<Rightarrow> jsnum \<Rightarrow> jsnum option) option"
  createMarketOrder :: "string \<Rightarrow> string \<Rightarrow> jsnum \<Rightarrow> error + order"

section \<open>Position sizing\<close>

record sizingResult =
  symbol :: string
  sr_base :: "string option"
  sr_quote :: "string option"
  price :: rat
  buyAmount :: jsnum
  sellAmount :: jsnum
  freeQuote :: rat
  freeBase :: rat
  rawBuyAmount :: jsnum
  rawSellAmount :: jsnum

definition marketKeys :: "exchange \<Rightarrow> string list" where
  "marketKeys ex = (case markets ex of None \<Rightarrow> [] | Some ms \<Rightarrow> map fst ms)"

text \<open>
  \<^verbatim>\<open>exchange.markets\<close> is a plain object, so the operator \<^verbatim>\<open>in\<close> and a property read
  follow its prototype chain: besides the market keys, which \<^verbatim>\<open>Object.keys\<close> lists, the
  property names of \<^verbatim>\<open>Object.prototype\<close> are found as well.
\<close>

definition objectPrototypeNames :: "string list" where
  "objectPrototypeNames =
     [''constructor'', ''__defineGetter__'', ''__defineSetter__'', ''hasOwnProperty'',
      ''__lookupGetter__'', ''__lookupSetter__'', ''isPrototypeOf'', ''propertyIsEnumerable'',
      ''toString'', ''valueOf'', ''__proto__'', ''toLocaleString'']"

text \<open>\<^verbatim>\<open>symbol in exchange.markets\<close> (line 131) and \<^verbatim>\<open>symbol in (exchange.markets || {})\<close>
  (line 181).\<close>

definition inMarkets :: "exchange \<Rightarrow> string \<Rightarrow> bool" where
  "inMarkets ex smb \<longleftrightarrow> smb \<in> set (marketKeys ex) \<or> smb \<in> set objectPrototypeNames"

text \<open>An inherited member read as a market: it is truthy, and its \<^verbatim>\<open>base\<close>,
  \<^verbatim>\<open>quote\<close>, \<^verbatim>\<open>type\<close> and \<^verbatim>\<open>limits\<close> are undefined.\<close>

definition inheritedMember :: market where
  "inheritedMember =
     \<lparr> base = None, quote = None, mtype = None, limits_amount_min = None \<rparr>"

text \<open>Lines 131 to 140: map the symbol to a key of \<^verbatim>\<open>exchange.markets\<close>.\<close>

definition resolveSymbol :: "exchange \<Rightarrow> string \<Rightarrow> string" where
  "resolveSymbol ex smb =
     (if markets ex \<noteq> None \<and> \<not> inMarkets ex smb then
        (let tries = [smb,
                      replaceFirst CHR ''/'' [] smb,
                      replaceFirst CHR ''/'' ''-'' smb,
                      replaceFirst CHR ''-'' [] (replaceFirst CHR ''/'' [] smb)]
         in case find (\<lambda>k. k \<in> set tries \<or> replaceFirst CHR ''/'' [] k \<in> set tries)
                      (marketKeys ex) of
              None \<Rightarrow> smb
            | Some found \<Rightarrow> if found = [] then smb else found)
      else smb)"

text \<open>Line 142, and line 339 of the handler: \<^verbatim>\<open>exchange.markets[symbol]\<close>. A market key
  hides an inherited member of the same name.\<close>

definition lookupMarket :: "exchange \<Rightarrow> string \<Rightarrow> market option" where
  "lookupMarket ex smb =
     (case markets ex of
        None \<Rightarrow> None
      | Some ms \<Rightarrow>
          (case map_of ms smb of
             Some m \<Rightarrow> Some m
           | None \<Rightarrow> if smb \<in> set objectPrototypeNames then Some inheritedMember else None))"

text \<open>Lines 144 to 152.\<close>

definition baseQuote :: "market option \<Rightarrow> string \<Rightarrow> string option \<times> string option" where
  "baseQuote mk smb =
     (case mk of
        Some m \<Rightarrow> (base m, quote m)
      | None \<Rightarrow> (let parts = splitOn CHR ''/'' smb in (nthOpt parts 0, nthOpt parts 1)))"

text \<open>Lines 156 and 157. An asset that is \<^verbatim>\<open>undefined\<close> indexes the balance with the
  property name \<^verbatim>\<open>"undefined"\<close>. An inherited member of the balance object has neither
  \<^verbatim>\<open>free\<close> nor \<^verbatim>\<open>total\<close>, so it gives 0 as an absent asset does.\<close>

definition freeOf :: "(string \<rightharpoonup> balanceEntry) \<Rightarrow> string option \<Rightarrow> rat" where
  "freeOf bal asset =
     (case bal (case asset of None \<Rightarrow> ''undefined'' | Some a \<Rightarrow> a) of
        None \<Rightarrow> 0
      | Some e \<Rightarrow>
          (case orElse (truthyVal (free e)) (truthyVal (total e)) of
             None \<Rightarrow> 0
           | Some r \<Rightarrow> r))"

text \<open>Line 164.\<close>

definition tickerPrice :: "ticker option \<Rightarrow> rat option" where
  "tickerPrice t =
     (case t of
        None \<Rightarrow> None
      | Some tk \<Rightarrow>
          orElse (truthyVal (tk_last tk)) (orElse (truthyVal (tk_close tk)) (truthyVal (tk_bid tk))))"

text \<open>Lines 168 to 174.\<close>

definition rawBuy :: "config \<Rightarrow> rat \<Rightarrow> rat \<Rightarrow> jsnum" where
  "rawBuy cfg fq p =
     (if EXCHANGE_TYPE cfg = ''swap'' \<and> USE_LEVERAGE_FOR_SWAPS cfg
      then jdiv (jmul (jmul (Num fq) (SAFETY_BUFFER cfg)) (LEVERAGE cfg)) p
      else jdiv (jmul (Num fq) (SAFETY_BUFFER cfg)) p)"

definition rawSell :: "config \<Rightarrow> rat \<Rightarrow> jsnum" where
  "rawSell cfg fb = jmul (Num fb) (SAFETY_BUFFER cfg)"

text \<open>The two calls of one branch of the \<^verbatim>\<open>try\<close> block: the buy quantity is assigned
  before the sell quantity is rounded, and the third component tells whether both calls
  returned.\<close>

definition roundBoth ::
  "(string \<Rightarrow> jsnum \<Rightarrow> jsnum option) \<Rightarrow> string \<Rightarrow> jsnum \<Rightarrow> jsnum \<Rightarrow> jsnum \<times> jsnum \<times> bool" where
  "roundBoth atp key b s =
     (case atp key b of
        None \<Rightarrow> (b, s, False)
      | Some b' \<Rightarrow>
          (case atp key s of
             None \<Rightarrow> (b', s, False)
           | Some s' \<Rightarrow> (b', s', True)))"

text \<open>Lines 177 to 195: rounding to the exchange's precision, inside \<^verbatim>\<open>try\<close>; the
  \<^verbatim>\<open>catch\<close> only logs. The result is the buy quantity, the sell quantity and the
  symbol.\<close>

definition roundAmounts :: "exchange \<Rightarrow> string \<Rightarrow> jsnum \<Rightarrow> jsnum \<Rightarrow> jsnum \<times> jsnum \<times> string" where
  "roundAmounts ex smb b s =
     (case amountToPrecision ex of
        None \<Rightarrow> (b, s, smb)
      | Some atp \<Rightarrow>
          if inMarkets ex smb then
            (case roundBoth atp smb b s of (b', s', _) \<Rightarrow> (b', s', smb))
          else
            (case find (\<lambda>k. replaceFirst CHR ''/'' [] k = replaceFirst CHR ''/'' [] smb)
                       (marketKeys ex) of
               None \<Rightarrow> (b, s, smb)
             | Some found \<Rightarrow>
                 if found = [] then (b, s, smb)
                 else (case roundBoth atp found b s of
                         (b', s', done) \<Rightarrow> (b', s', if done then found else smb))))"

text \<open>The key with which the \<^verbatim>\<open>try\<close> block calls \<^verbatim>\<open>amountToPrecision\<close>: the symbol
  itself (line 181), or the key found at line 185; \<open>None\<close> when it makes no call.\<close>

definition roundKey :: "exchange \<Rightarrow> string \<Rightarrow> string option" where
  "roundKey ex smb =
     (if inMarkets ex smb then Some smb
      else (case find (\<lambda>k. replaceFirst CHR ''/'' [] k = replaceFirst CHR ''/'' [] smb)
                      (marketKeys ex) of
              None \<Rightarrow> None
            | Some found \<Rightarrow> if found = [] then None else Some found))"

text \<open>Lines 198 to 202, for one quantity.\<close>

definition enforceMin :: "market option \<Rightarrow> jsnum \<Rightarrow> jsnum" where
  "enforceMin mk amt =
     (case mk of
        None \<Rightarrow> amt
      | Some m \<Rightarrow>
          (case truthyVal (limits_amount_min m) of
             None \<Rightarrow> amt
           | Some minAmt \<Rightarrow>
               (case amt of
                  NaN \<Rightarrow> amt
                | Num a \<Rightarrow> if 0 < a \<and> a < minAmt then Num 0 else amt)))"

text \<open>\<^verbatim>\<open>computeAllInAmounts(marketSymbol)\<close>, lines 126 to 216.\<close>

definition computeAllInAmounts :: "config \<Rightarrow> exchange \<Rightarrow> string \<Rightarrow> error + sizingResult" where
  "computeAllInAmounts cfg ex marketSymbol =
     (let smb = resolveSymbol ex marketSymbol;
          mk = lookupMarket ex smb;
          (b, q) = baseQuote mk smb
      in case fetchBalance ex of
           Inl e \<Rightarrow> Inl e
         | Inr bal \<Rightarrow>
             (let fq = freeOf bal q;
                  fb = freeOf bal b
              in case tickerPrice (fetchTicker ex smb) of
                   None \<Rightarrow> Inl (PriceUnavailable smb)
                 | Some p \<Rightarrow>
                     (let rb = rawBuy cfg fq p;
                          rs = rawSell cfg fb;
                          (buy, sell, smb') = roundAmounts ex smb rb rs
                      in Inr \<lparr> symbol = smb', sr_base = b, sr_quote = q, price = p,
                               buyAmount = enforceMin mk buy,
                               sellAmount = enforceMin mk sell,
                               freeQuote = fq, freeBase = fb,
                               rawBuyAmount = rb, rawSellAmount = rs \<rparr>)))"

section \<open>Webhook handler\<close>

text \<open>
  The request as the handler reads it: \<open>body\<close> is \<^verbatim>\<open>req.body\<close> (\<open>None\<close> for
  \<^verbatim>\<open>undefined\<close>, \<open>JStr\<close> for a text body) and \<open>isJson\<close> is
  \<^verbatim>\<open>req.is("application/json")\<close>.
\<close>

record request =
  headers :: "string \<rightharpoonup> string"
  body :: "json option"
  isJson :: bool

text \<open>
  The library functions the handler calls, as parameters: the two hash functions of
  \<^verbatim>\<open>crypto\<close> with their 256-bit results, \<^verbatim>\<open>JSON.parse\<close> (\<open>None\<close> when it throws),
  \<^verbatim>\<open>JSON.stringify\<close> and \<^verbatim>\<open>String\<close>.
\<close>

record runtime =
  hmacSha256 :: "string \<Rightarrow> string \<Rightarrow> 256 word"
  sha256 :: "string \<Rightarrow> 256 word"
  jsonParse :: "string \<Rightarrow> json option"
  jsonStringify :: "json \<Rightarrow> string"
  toStringJs :: "json \<Rightarrow> string"

definition hexDigit :: "nat \<Rightarrow> char" where
  "hexDigit n = ''0123456789abcdef'' ! (n mod 16)"

text \<open>\<^verbatim>\<open>digest("hex")\<close>: the 64 hexadecimal digits of a 256-bit digest, the most
  significant first.\<close>

definition hexDigest :: "256 word \<Rightarrow> string" where
  "hexDigest w = map (\<lambda>i. hexDigit (unat (drop_bit (4 * (63 - i)) w AND 15))) [0..<64]"

definition computeHmac :: "runtime \<Rightarrow> string \<Rightarrow> string \<Rightarrow> string" where
  "computeHmac rt secret payloadString = hexDigest (hmacSha256 rt secret payloadString)"

text \<open>\<^verbatim>\<open>crypto.timingSafeEqual\<close> throws a \<^verbatim>\<open>RangeError\<close> when its two buffers differ
  in byte length.\<close>

definition timingSafeEqual :: "string \<Rightarrow> string \<Rightarrow> error + bool" where
  "timingSafeEqual a b = (if length a \<noteq> length b then Inl RangeError else Inr (a = b))"

datatype replyBody =
    ErrorMsg string
  | Thrown error
  | Duplicate
  | TypeMismatch "string option"
  | TooSmall string jsnum
  | OrderFailed error
  | Placed string order

datatype reply = Reply nat replyBody

fun status :: "reply \<Rightarrow> nat" where
  "status (Reply code b) = code"

text \<open>Line 275.\<close>

definition rawTextOf :: "runtime \<Rightarrow> request \<Rightarrow> string" where
  "rawTextOf rt req =
     (case body req of
        Some (JStr s) \<Rightarrow> s
      | b \<Rightarrow> jsonStringify rt (if truthy b then (case b of Some j \<Rightarrow> j | None \<Rightarrow> JObj [])
                              else JObj []))"

text \<open>Line 278.\<close>

definition signatureHeader :: "config \<Rightarrow> request \<Rightarrow> string" where
  "signatureHeader cfg req =
     (case headers req (WEBHOOK_HEADER cfg) of
        Some (c # cs) \<Rightarrow> c # cs
      | _ \<Rightarrow> (case headers req (toLowerCase (WEBHOOK_HEADER cfg)) of
                Some v \<Rightarrow> v
              | None \<Rightarrow> []))"

text \<open>Lines 277 to 288. \<open>None\<close>: the handler goes on; \<open>Some r\<close>: it answers \<open>r\<close>. An
  exception of \<^verbatim>\<open>timingSafeEqual\<close> reaches the \<^verbatim>\<open>catch\<close> of line 389.\<close>

definition verifySignature :: "config \<Rightarrow> runtime \<Rightarrow> request \<Rightarrow> string \<Rightarrow> reply option" where
  "verifySignature cfg rt req rawText =
     (if WEBHOOK_SECRET cfg = [] then None
      else
        (let sig = signatureHeader cfg req;
             computed = computeHmac rt (WEBHOOK_SECRET cfg) rawText
         in if sig = [] then Some (Reply 401 (ErrorMsg ''missing_signature''))
            else (case timingSafeEqual sig computed of
                    Inl e \<Rightarrow> Some (Reply 500 (Thrown e))
                  | Inr same \<Rightarrow>
                      if \<not> same then Some (Reply 401 (ErrorMsg ''invalid_signature''))
                      else None)))"

fun isObject :: "json option \<Rightarrow> bool" where
  "isObject (Some JNull) = True"
| "isObject (Some (JArr xs)) = True"
| "isObject (Some (JObj kvs)) = True"
| "isObject _ = False"

text \<open>Lines 298 to 313: the payload, or the reply of an early return.\<close>

definition parsePayload :: "config \<Rightarrow> runtime \<Rightarrow> request \<Rightarrow> string \<Rightarrow> reply + json" where
  "parsePayload cfg rt req rawText =
     (if isJson req \<and> isObject (body req) then
        Inr (case body req of Some j \<Rightarrow> j | None \<Rightarrow> JNull)
      else
        (let text = trim rawText
         in case jsonParse rt text of
              Some j \<Rightarrow> Inr j
            | None \<Rightarrow>
                (case tokens text of
                   [] \<Rightarrow> Inl (Reply 400 (ErrorMsg ''Empty payload''))
                 | p # ps \<Rightarrow>
                     (let action = toLowerCase p
                      in if action \<noteq> ''buy'' \<and> action \<noteq> ''sell''
                         then Inl (Reply 400 (ErrorMsg ''Unknown action''))
                         else Inr (JObj [(''action'', JStr action),
                                         (''symbol'',
                                          (case ps of
                                             [] \<Rightarrow> JStr (DEFAULT_SYMBOL cfg)
                                           | q # qs \<Rightarrow>
                                               (case normalizeSymbol (Some q) of
                                                  None \<Rightarrow> JNull
                                                | Some s \<Rightarrow> JStr s)))])))))"

text \<open>Reading a property of the payload: \<^verbatim>\<open>null\<close> has none and throws.\<close>

fun getProp :: "json \<Rightarrow> string \<Rightarrow> error + json option" where
  "getProp JNull k = Inl TypeError"
| "getProp (JObj kvs) k = Inr (map_of kvs k)"
| "getProp _ k = Inr None"

text \<open>Line 315: a truthy value that is not a string has no \<^verbatim>\<open>toLowerCase\<close>.\<close>

definition actionOf :: "json \<Rightarrow> error + string" where
  "actionOf payload =
     (case getProp payload ''action'' of
        Inl e \<Rightarrow> Inl e
      | Inr v \<Rightarrow>
          if \<not> truthy v then Inr []
          else (case v of Some (JStr s) \<Rightarrow> Inr (toLowerCase s) | _ \<Rightarrow> Inl TypeError))"

text \<open>Line 316. A truthy value that is not a string passes the guard of
  \<^verbatim>\<open>normalizeSymbol\<close> and is converted by \<^verbatim>\<open>String\<close>.\<close>

definition symbolOf :: "config \<Rightarrow> runtime \<Rightarrow> json \<Rightarrow> error + string option" where
  "symbolOf cfg rt payload =
     (case getProp payload ''symbol'' of
        Inl e \<Rightarrow> Inl e
      | Inr v \<Rightarrow>
          if \<not> truthy v then Inr (Some (DEFAULT_SYMBOL cfg))
          else (case v of
                  Some (JStr s) \<Rightarrow> Inr (normalizeSymbol (Some s))
                | Some j \<Rightarrow> Inr (Some (normalizeCore (toStringJs rt j)))
                | None \<Rightarrow> Inr (Some (DEFAULT_SYMBOL cfg))))"

text \<open>\<^verbatim>\<open>isNaN(qty) || qty <= MIN_ORDER_AMOUNT\<close>.\<close>

fun tooSmall :: "jsnum \<Rightarrow> jsnum \<Rightarrow> bool" where
  "tooSmall NaN m = True"
| "tooSmall (Num q) NaN = False"
| "tooSmall (Num q) (Num m) = (q \<le> m)"

text \<open>Lines 350 to 388. The calls after the order only log.\<close>

definition placeOrder :: "config \<Rightarrow> exchange \<Rightarrow> sizingResult \<Rightarrow> string \<Rightarrow> reply" where
  "placeOrder cfg ex amounts action =
     (if action = ''buy'' then
        (let qty = buyAmount amounts
         in if tooSmall qty (MIN_ORDER_AMOUNT cfg)
            then Reply 400 (TooSmall ''Computed buy size too small'' qty)
            else (case createMarketOrder ex (symbol amounts) ''buy'' qty of
                    Inl e \<Rightarrow> Reply 500 (OrderFailed e)
                  | Inr order \<Rightarrow> Reply 200 (Placed ''buy'' order)))
      else
        (let qty = sellAmount amounts
         in if tooSmall qty (MIN_ORDER_AMOUNT cfg)
            then Reply 400 (TooSmall ''Computed sell size too small'' qty)
            else (case createMarketOrder ex (symbol amounts) ''sell'' qty of
                    Inl e \<Rightarrow> Reply 500 (OrderFailed e)
                  | Inr order \<Rightarrow> Reply 200 (Placed ''sell'' order))))"

text \<open>Lines 297 to 388: everything the handler does after the duplicate guard. An
  exception reaches the \<^verbatim>\<open>catch\<close> of line 389. \<^verbatim>\<open>setLeverageIfNeeded\<close> catches its own
  errors and returns nothing, so it has no part in the reply.\<close>

definition processSignal :: "config \<Rightarrow> runtime \<Rightarrow> exchange \<Rightarrow> request \<Rightarrow> string \<Rightarrow> reply" where
  "processSignal cfg rt ex req rawText =
     (case parsePayload cfg rt req rawText of
        Inl r \<Rightarrow> r
      | Inr payload \<Rightarrow>
     (case actionOf payload of
        Inl e \<Rightarrow> Reply 500 (Thrown e)
      | Inr action \<Rightarrow>
     (case symbolOf cfg rt payload of
        Inl e \<Rightarrow> Reply 500 (Thrown e)
      | Inr smb \<Rightarrow>
          if action \<noteq> ''buy'' \<and> action \<noteq> ''sell''
          then Reply 400 (ErrorMsg ''Action must be buy or sell'')
          else if smb = None \<or> smb = Some []
          then Reply 400 (ErrorMsg ''Missing symbol'')
          else
     (case computeAllInAmounts cfg ex (case smb of Some s \<Rightarrow> s | None \<Rightarrow> []) of
        Inl e \<Rightarrow> Reply 500 (Thrown e)
      | Inr amounts \<Rightarrow>
          if API_KEY cfg = [] \<or> API_SECRET cfg = []
          then Reply 500 (ErrorMsg ''API keys not set in environment'')
          else
     (case lookupMarket ex (symbol amounts) of
        None \<Rightarrow> placeOrder cfg ex amounts action
      | Some m \<Rightarrow>
          if EXCHANGE_TYPE cfg = ''swap'' \<and> mtype m \<noteq> Some ''swap''
          then Reply 400 (TypeMismatch (mtype m))
          else placeOrder cfg ex amounts action)))))"

text \<open>The handler of \<^verbatim>\<open>POST /webhook\<close>, lines 272 to 393, with the clock and the map of
  recent payloads passed in. Nothing before the duplicate guard awaits, so the guard
  runs on the map as the request found it.\<close>

definition webhook ::
  "config \<Rightarrow> runtime \<Rightarrow> exchange \<Rightarrow> int \<Rightarrow> request \<Rightarrow> recentPayloads \<Rightarrow> reply \<times> recentPayloads" where
  "webhook cfg rt ex now req recent =
     (let rawText = rawTextOf rt req
      in case verifySignature cfg rt req rawText of
           Some r \<Rightarrow> (r, recent)
         | None \<Rightarrow>
             (let dupKey = hexDigest (sha256 rt rawText);
                  (dup, recent') = isDuplicate now dupKey recent
              in if dup then (Reply 200 Duplicate, recent')
                 else (processSignal cfg rt ex req rawText, recent')))"

section \<open>Example configurations and exchanges\<close>

text \<open>A configuration with the defaults of the source, API credentials set and no webhook
  secret.\<close>

definition exampleConfig :: config where
  "exampleConfig =
     \<lparr> EXCHANGE_TYPE = ''swap'', API_KEY = ''key'', API_SECRET = ''secret'',
       SAFETY_BUFFER = Num 1, MIN_ORDER_AMOUNT = Num (1 / 100000000),
       DEFAULT_SYMBOL = ''BTC/USDT:USDT'', USE_LEVERAGE_FOR_SWAPS = False,
       LEVERAGE = Num 1, WEBHOOK_SECRET = [], WEBHOOK_HEADER = ''x-webhook-signature'' \<rparr>"

text \<open>A runtime whose \<^verbatim>\<open>JSON.parse\<close> rejects every text, with stand-ins for the two
  hash functions.\<close>

definition exampleRuntime :: runtime where
  "exampleRuntime =
     \<lparr> hmacSha256 = (\<lambda>secret payload. of_nat (length secret + length payload)),
       sha256 = (\<lambda>payload. of_nat (length payload)),
       jsonParse = (\<lambda>t. None),
       jsonStringify = (\<lambda>j. ''{}''),
       toStringJs = (\<lambda>j. ''[object Object]'') \<rparr>"

text \<open>Truncation to a number of decimals that throws on a result of zero, as the amount
  precision of an exchange client may.\<close>

definition truncateTo :: "nat \<Rightarrow> string \<Rightarrow> jsnum \<Rightarrow> jsnum option" where
  "truncateTo d key amt =
     (case amt of
        NaN \<Rightarrow> Some NaN
      | Num r \<Rightarrow>
          if \<lfloor>r * 10 ^ d\<rfloor> = 0 then None
          else Some (Num (of_int \<lfloor>r * 10 ^ d\<rfloor> / 10 ^ d)))"

text \<open>An amount precision that always throws.\<close>

definition alwaysThrows :: "string \<Rightarrow> jsnum \<Rightarrow> jsnum option" where
  "alwaysThrows key amt = None"

definition exampleMarket :: market where
  "exampleMarket =
     \<lparr> base = Some ''BTC'', quote = Some ''USDT'', mtype = Some ''swap'',
       limits_amount_min = Some (Num (1 / 1000)) \<rparr>"

text \<open>An exchange that lists \<^verbatim>\<open>BTC/USDT\<close> only, holds the given free amount of USDT and
  no BTC, quotes 50000 for every symbol, and rounds with the given function.\<close>

definition exampleExchange ::
  "rat \<Rightarrow> (string \<Rightarrow> jsnum \<Rightarrow> jsnum option) option \<Rightarrow> exchange" where
  "exampleExchange usdt atp =
     \<lparr> markets = Some [(''BTC/USDT'', exampleMarket)],
       fetchBalance = Inr [''USDT'' \<mapsto> \<lparr> free = Some (Num usdt), total = Some (Num usdt) \<rparr>],
       fetchTicker = (\<lambda>s. Some \<lparr> tk_last = Some (Num 50000), tk_close = None, tk_bid = None \<rparr>),
       amountToPrecision = atp,
       createMarketOrder = (\<lambda>s side qty. Inr ''order-1'') \<rparr>"

text \<open>The same exchange when its ticker call is rejected.\<close>

definition noTickerExchange :: exchange where
  "noTickerExchange = (exampleExchange 1000 None) \<lparr> fetchTicker := (\<lambda>s. None) \<rparr>"

definition textRequest :: "string \<Rightarrow> request" where
  "textRequest t = \<lparr> headers = Map.empty, body = Some (JStr t), isJson = False \<rparr>"

definition signedRequest :: "string \<Rightarrow> string \<Rightarrow> request" where
  "signedRequest sig t =
     \<lparr> headers = [''x-webhook-signature'' \<mapsto> sig], body = Some (JStr t), isJson = False \<rparr>"

section \<open>Properties of the duplicate guard\<close>

lemma isDuplicate_fst:
  "fst (isDuplicate now key recent) \<longleftrightarrow> (\<exists>t. recent key = Some t \<and> now - t \<le> DUP_TTL_MS)"
  by (auto simp: isDuplicate_def purge_def Let_def split: option.splits)

lemma isDuplicate_snd:
  "snd (isDuplicate now key recent) k =
     (if k = key \<and> \<not> fst (isDuplicate now key recent) then Some now else purge now recent k)"
  by (auto simp: isDuplicate_def purge_def Let_def split: option.splits)

text \<open>Once the signature check lets a request through, the reply is decided by the
  duplicate guard alone, and the map of recent payloads is the one the guard returns.\<close>

lemma webhook_pass:
  assumes "verifySignature cfg rt req (rawTextOf rt req) = None"
  shows "webhook cfg rt ex now req recent =
     (if fst (isDuplicate now (hexDigest (sha256 rt (rawTextOf rt req))) recent)
      then Reply 200 Duplicate else processSignal cfg rt ex req (rawTextOf rt req),
      snd (isDuplicate now (hexDigest (sha256 rt (rawTextOf rt req))) recent))"
  using assms by (simp add: webhook_def Let_def split: prod.splits)

lemma verifySignature_no_secret:
  "WEBHOOK_SECRET cfg = [] \<Longrightarrow> verifySignature cfg rt req raw = None"
  by (simp add: verifySignature_def)

lemma rawTextOf_text: "rawTextOf rt (textRequest t) = t"
  by (simp add: rawTextOf_def textRequest_def)

text \<open>
  Claim C6. Each call of the duplicate guard first deletes every entry older than the
  TTL of 30 seconds; it answers true exactly when the key is still present, and then
  leaves the entry as it was; otherwise it stores the key with the current time and
  answers false. An entry within the TTL survives every call with its time stamp. So when a request that passed the signature check was recorded at
  time \<open>t1\<close>, a request with the same body that passes the check at time \<open>t2\<close> is
  answered with 200 and \<^verbatim>\<open>duplicate\<close> when \<open>t2 - t1\<close> is at most the TTL, and is
  processed as a new one, and recorded at \<open>t2\<close>, when the TTL has expired.
\<close>

theorem C6_duplicate_guard:
  "DUP_TTL_MS = 30000 \<and>
   (fst (isDuplicate now key recent) \<longleftrightarrow>
      (\<exists>t. recent key = Some t \<and> \<not> now - t > DUP_TTL_MS)) \<and>
   snd (isDuplicate now key recent) k =
     (if k = key \<and> \<not> fst (isDuplicate now key recent) then Some now
      else (case recent k of
              None \<Rightarrow> None
            | Some t \<Rightarrow> if now - t > DUP_TTL_MS then None else Some t)) \<and>
   (\<forall>t. recent k = Some t \<and> now - t \<le> DUP_TTL_MS \<longrightarrow>
        snd (isDuplicate now key recent) k = Some t) \<and>
   (verifySignature cfg rt req (rawTextOf rt req) = None \<and>
    verifySignature cfg rt req' (rawTextOf rt req') = None \<and>
    rawTextOf rt req' = rawTextOf rt req \<and>
    webhook cfg rt ex t1 req recent = (r1, recent1) \<and>
    r1 \<noteq> Reply 200 Duplicate \<longrightarrow>
      (t2 - t1 \<le> DUP_TTL_MS \<longrightarrow>
         webhook cfg rt ex' t2 req' recent1 = (Reply 200 Duplicate, purge t2 recent1)) \<and>
      (t2 - t1 > DUP_TTL_MS \<longrightarrow>
         webhook cfg rt ex' t2 req' recent1 =
           (processSignal cfg rt ex' req' (rawTextOf rt req'),
            (purge t2 recent1)(hexDigest (sha256 rt (rawTextOf rt req')) \<mapsto> t2))))"
proof (intro conjI impI allI; (elim conjE)?)
  show "DUP_TTL_MS = 30000" by (simp add: DUP_TTL_MS_def)
  show "fst (isDuplicate now key recent) \<longleftrightarrow>
      (\<exists>t. recent key = Some t \<and> \<not> now - t > DUP_TTL_MS)"
    by (auto simp: isDuplicate_fst)
  show "snd (isDuplicate now key recent) k =
     (if k = key \<and> \<not> fst (isDuplicate now key recent) then Some now
      else (case recent k of
              None \<Rightarrow> None
            | Some t \<Rightarrow> if now - t > DUP_TTL_MS then None else Some t))"
    by (simp add: isDuplicate_snd purge_def)
next
  fix t
  assume "recent k = Some t" and "now - t \<le> DUP_TTL_MS"
  then show "snd (isDuplicate now key recent) k = Some t"
    by (auto simp: isDuplicate_snd isDuplicate_fst purge_def)
next
  assume v1: "verifySignature cfg rt req (rawTextOf rt req) = None"
     and v2: "verifySignature cfg rt req' (rawTextOf rt req') = None"
     and same: "rawTextOf rt req' = rawTextOf rt req"
     and w1: "webhook cfg rt ex t1 req recent = (r1, recent1)"
     and new: "r1 \<noteq> Reply 200 Duplicate"
     and ttl: "t2 - t1 \<le> DUP_TTL_MS"
  let ?k = "hexDigest (sha256 rt (rawTextOf rt req))"
  have nd: "\<not> fst (isDuplicate t1 ?k recent)"
    using w1 new by (auto simp: webhook_pass [OF v1] split: if_splits)
  have rec: "recent1 ?k = Some t1"
    using w1 nd by (auto simp: webhook_pass [OF v1] isDuplicate_snd)
  have d2: "fst (isDuplicate t2 ?k recent1)"
    using rec ttl by (simp add: isDuplicate_fst)
  then have "snd (isDuplicate t2 ?k recent1) = purge t2 recent1"
    by (auto simp: isDuplicate_snd)
  with d2 show "webhook cfg rt ex' t2 req' recent1 = (Reply 200 Duplicate, purge t2 recent1)"
    by (simp add: webhook_pass [OF v2] same)
next
  assume v1: "verifySignature cfg rt req (rawTextOf rt req) = None"
     and v2: "verifySignature cfg rt req' (rawTextOf rt req') = None"
     and same: "rawTextOf rt req' = rawTextOf rt req"
     and w1: "webhook cfg rt ex t1 req recent = (r1, recent1)"
     and new: "r1 \<noteq> Reply 200 Duplicate"
     and ttl: "t2 - t1 > DUP_TTL_MS"
  let ?k = "hexDigest (sha256 rt (rawTextOf rt req))"
  have nd: "\<not> fst (isDuplicate t1 ?k recent)"
    using w1 new by (auto simp: webhook_pass [OF v1] split: if_splits)
  have rec: "recent1 ?k = Some t1"
    using w1 nd by (auto simp: webhook_pass [OF v1] isDuplicate_snd)
  have d2: "\<not> fst (isDuplicate t2 ?k recent1)"
    using rec ttl by (simp add: isDuplicate_fst)
  then have "snd (isDuplicate t2 ?k recent1) = (purge t2 recent1)(?k \<mapsto> t2)"
    by (auto simp: isDuplicate_snd)
  with d2 show "webhook cfg rt ex' t2 req' recent1 =
           (processSignal cfg rt ex' req' (rawTextOf rt req'),
            (purge t2 recent1)(hexDigest (sha256 rt (rawTextOf rt req')) \<mapsto> t2))"
    by (simp add: webhook_pass [OF v2] same)
qed

text \<open>A run of claim C6: \<^verbatim>\<open>buy btcusdt\<close> is placed at time 0, answered as a duplicate
  20 seconds later, and placed again 40 seconds later.\<close>

theorem C6_duplicate_guard_witness:
  "verifySignature exampleConfig exampleRuntime (textRequest ''buy btcusdt'')
     (rawTextOf exampleRuntime (textRequest ''buy btcusdt'')) = None \<and>
   fst (webhook exampleConfig exampleRuntime (exampleExchange 1000 None) 0
          (textRequest ''buy btcusdt'') Map.empty) = Reply 200 (Placed ''buy'' ''order-1'') \<and>
   fst (webhook exampleConfig exampleRuntime (exampleExchange 1000 None) 20000
          (textRequest ''buy btcusdt'')
          (snd (webhook exampleConfig exampleRuntime (exampleExchange 1000 None) 0
                  (textRequest ''buy btcusdt'') Map.empty))) = Reply 200 Duplicate \<and>
   fst (webhook exampleConfig exampleRuntime (exampleExchange 1000 None) 40000
          (textRequest ''buy btcusdt'')
          (snd (webhook exampleConfig exampleRuntime (exampleExchange 1000 None) 0
                  (textRequest ''buy btcusdt'') Map.empty))) =
     processSignal exampleConfig exampleRuntime (exampleExchange 1000 None)
       (textRequest ''buy btcusdt'') ''buy btcusdt''"
proof -
  let ?req = "textRequest ''buy btcusdt''"
  let ?w = "webhook exampleConfig exampleRuntime (exampleExchange 1000 None) 0 ?req Map.empty"
  have v: "verifySignature exampleConfig exampleRuntime ?req (rawTextOf exampleRuntime ?req) = None"
    by (simp add: verifySignature_no_secret exampleConfig_def)
  have r: "fst ?w = Reply 200 (Placed ''buy'' ''order-1'')"
    by code_simp
  then have n: "fst ?w \<noteq> Reply 200 Duplicate"
    by simp
  have w: "?w = (fst ?w, snd ?w)"
    by simp
  have a: "fst (webhook exampleConfig exampleRuntime (exampleExchange 1000 None) 20000 ?req (snd ?w))
             = Reply 200 Duplicate"
    using C6_duplicate_guard [where cfg = exampleConfig and rt = exampleRuntime and req = ?req
        and req' = ?req and ex = "exampleExchange 1000 None" and ex' = "exampleExchange 1000 None"
        and ?t1.0 = 0 and ?t2.0 = 20000 and recent = Map.empty and ?r1.0 = "fst ?w"
        and ?recent1.0 = "snd ?w"] v n w
    by (simp add: DUP_TTL_MS_def)
  have b: "fst (webhook exampleConfig exampleRuntime (exampleExchange 1000 None) 40000 ?req (snd ?w))
             = processSignal exampleConfig exampleRuntime (exampleExchange 1000 None) ?req ''buy btcusdt''"
    using C6_duplicate_guard [where cfg = exampleConfig and rt = exampleRuntime and req = ?req
        and req' = ?req and ex = "exampleExchange 1000 None" and ex' = "exampleExchange 1000 None"
        and ?t1.0 = 0 and ?t2.0 = 40000 and recent = Map.empty and ?r1.0 = "fst ?w"
        and ?recent1.0 = "snd ?w"] v n w
    by (simp add: DUP_TTL_MS_def rawTextOf_text)
  from v r a b show ?thesis by simp
qed

text \<open>
  Claim C10. The handler records the hash of the raw body before it parses the payload
  or calls the exchange. So when a request passes the signature check and is then
  answered with an error (status 400 or above), its reply is the one of the processing
  after the guard, its key is stored with the time of the request, and a request with
  the same body that passes the check within the TTL is answered with 200 and
  \<^verbatim>\<open>duplicate\<close>, whatever the exchange would now do, and is not processed again.
\<close>

theorem C10_recorded_before_processing:
  assumes v1: "verifySignature cfg rt req (rawTextOf rt req) = None"
      and w1: "webhook cfg rt ex t1 req recent = (r1, recent1)"
      and failed: "400 \<le> status r1"
      and same: "rawTextOf rt req' = rawTextOf rt req"
      and v2: "verifySignature cfg rt req' (rawTextOf rt req') = None"
      and ttl: "t2 - t1 \<le> DUP_TTL_MS"
  shows "r1 = processSignal cfg rt ex req (rawTextOf rt req) \<and>
         recent1 (hexDigest (sha256 rt (rawTextOf rt req))) = Some t1 \<and>
         webhook cfg rt ex' t2 req' recent1 = (Reply 200 Duplicate, purge t2 recent1)"
proof -
  let ?k = "hexDigest (sha256 rt (rawTextOf rt req))"
  have nd: "\<not> fst (isDuplicate t1 ?k recent)"
    using w1 failed by (auto simp: webhook_pass [OF v1] split: if_splits)
  have r1: "r1 = processSignal cfg rt ex req (rawTextOf rt req)"
    using w1 nd by (simp add: webhook_pass [OF v1])
  have rec: "recent1 ?k = Some t1"
    using w1 nd by (auto simp: webhook_pass [OF v1] isDuplicate_snd)
  have d2: "fst (isDuplicate t2 ?k recent1)"
    using rec ttl by (simp add: isDuplicate_fst)
  have s2: "snd (isDuplicate t2 ?k recent1) = purge t2 recent1"
    using d2 by (auto simp: isDuplicate_snd)
  have "webhook cfg rt ex' t2 req' recent1 = (Reply 200 Duplicate, purge t2 recent1)"
    using d2 s2 by (simp add: webhook_pass [OF v2] same)
  with r1 rec show ?thesis by simp
qed

text \<open>A run of claim C10: a sell signal for an account that holds no BTC is refused
  with 400, because the computed quantity is too small; the same body sent 10 seconds
  later is answered as a duplicate.\<close>

theorem C10_recorded_before_processing_witness:
  "fst (webhook exampleConfig exampleRuntime (exampleExchange 1000 None) 0
          (textRequest ''sell btcusdt'') Map.empty)
     = Reply 400 (TooSmall ''Computed sell size too small'' (Num 0)) \<and>
   fst (webhook exampleConfig exampleRuntime (exampleExchange 1000 None) 10000
          (textRequest ''sell btcusdt'')
          (snd (webhook exampleConfig exampleRuntime (exampleExchange 1000 None) 0
                  (textRequest ''sell btcusdt'') Map.empty))) = Reply 200 Duplicate"
proof -
  let ?req = "textRequest ''sell btcusdt''"
  let ?w = "webhook exampleConfig exampleRuntime (exampleExchange 1000 None) 0 ?req Map.empty"
  have v: "verifySignature exampleConfig exampleRuntime ?req (rawTextOf exampleRuntime ?req) = None"
    by (simp add: verifySignature_no_secret exampleConfig_def)
  have r: "fst ?w = Reply 400 (TooSmall ''Computed sell size too small'' (Num 0))"
    by code_simp
  then have f: "400 \<le> status (fst ?w)"
    by simp
  have w: "?w = (fst ?w, snd ?w)"
    by simp
  have t: "(10000::int) - 0 \<le> DUP_TTL_MS"
    by (simp add: DUP_TTL_MS_def)
  have "fst (webhook exampleConfig exampleRuntime (exampleExchange 1000 None) 10000 ?req (snd ?w))
          = Reply 200 Duplicate"
    using C10_recorded_before_processing [OF v w f refl v t, of "exampleExchange 1000 None"]
    by simp
  with r show ?thesis by simp
qed

section \<open>Properties of the signature check\<close>

lemma length_hexDigest: "length (hexDigest w) = 64"
  by (simp add: hexDigest_def)

text \<open>With a secret configured, a request without the signature header is answered
  with 401, and so is one whose signature has the length of the digest and differs
  from it.\<close>

lemma webhook_missing_signature:
  assumes "WEBHOOK_SECRET cfg \<noteq> []" and "signatureHeader cfg req = []"
  shows "webhook cfg rt ex now req recent = (Reply 401 (ErrorMsg ''missing_signature''), recent)"
  using assms by (simp add: webhook_def verifySignature_def Let_def)

lemma webhook_invalid_signature:
  assumes "WEBHOOK_SECRET cfg \<noteq> []"
      and "length (signatureHeader cfg req) = 64"
      and "signatureHeader cfg req \<noteq> computeHmac rt (WEBHOOK_SECRET cfg) (rawTextOf rt req)"
  shows "webhook cfg rt ex now req recent = (Reply 401 (ErrorMsg ''invalid_signature''), recent)"
proof -
  have "signatureHeader cfg req \<noteq> []"
    using assms(2) by auto
  then show ?thesis
    using assms
    by (simp add: webhook_def verifySignature_def Let_def timingSafeEqual_def computeHmac_def
        length_hexDigest)
qed

text \<open>
  Claim C7, at an input where the code departs from it. The secret is set and the
  request carries the signature \<^verbatim>\<open>abc\<close>, which is not the digest: the digest has 64
  characters. \<^verbatim>\<open>crypto.timingSafeEqual\<close> throws on buffers of different lengths, the
  exception reaches the handler's outer \<^verbatim>\<open>catch\<close>, and the reply is 500, not 401,
  whatever the hash function, the exchange, the clock and the recent payloads are.
\<close>

theorem C7_short_signature_is_500:
  "signatureHeader (exampleConfig \<lparr> WEBHOOK_SECRET := ''s3cret'' \<rparr>)
       (signedRequest ''abc'' ''buy btcusdt'')
     \<noteq> computeHmac rt ''s3cret'' ''buy btcusdt'' \<and>
   webhook (exampleConfig \<lparr> WEBHOOK_SECRET := ''s3cret'' \<rparr>) rt ex now
       (signedRequest ''abc'' ''buy btcusdt'') recent
     = (Reply 500 (Thrown RangeError), recent)"
proof -
  let ?cfg = "exampleConfig \<lparr> WEBHOOK_SECRET := ''s3cret'' \<rparr>"
  let ?req = "signedRequest ''abc'' ''buy btcusdt''"
  have sig: "signatureHeader ?cfg ?req = ''abc''"
    by (simp add: signatureHeader_def exampleConfig_def signedRequest_def)
  have raw: "rawTextOf rt ?req = ''buy btcusdt''"
    by (simp add: rawTextOf_def signedRequest_def)
  have len: "length (computeHmac rt ''s3cret'' ''buy btcusdt'') = 64"
    by (simp add: computeHmac_def length_hexDigest)
  have ne: "''abc'' \<noteq> computeHmac rt ''s3cret'' ''buy btcusdt''"
  proof
    assume "''abc'' = computeHmac rt ''s3cret'' ''buy btcusdt''"
    then have "length ''abc'' = length (computeHmac rt ''s3cret'' ''buy btcusdt'')"
      by (rule arg_cong)
    with len show False by simp
  qed
  have sec: "WEBHOOK_SECRET ?cfg = ''s3cret''"
    by simp
  have "verifySignature ?cfg rt ?req ''buy btcusdt'' = Some (Reply 500 (Thrown RangeError))"
    using len by (simp add: verifySignature_def sig sec timingSafeEqual_def Let_def)
  then show ?thesis
    using ne by (simp add: webhook_def raw sig)
qed

section \<open>Symbol normalisation: the examples\<close>

text \<open>
  Claim C5, by counterexample. The long-only variant does not reject the empty string:
  its \<^verbatim>\<open>normalizeSymbol\<close> returns the configured default symbol, here the default of
  the source.
\<close>

theorem C5_empty_symbol_counterexample:
  "normalizeSymbol_long ''BTC/USDT:USDT'' (Some '''') = ''BTC/USDT:USDT''"
  by simp

text \<open>
  Claim C5, as amended. In every variant \<^verbatim>\<open>btcusdt\<close> normalises to \<^verbatim>\<open>BTC/USDT\<close> and
  \<^verbatim>\<open>eth-usdt\<close> to \<^verbatim>\<open>ETH/USDT\<close>. The empty string normalises to \<^verbatim>\<open>null\<close>, so to no
  symbol, in the variants of \<^verbatim>\<open>part_000\<close>, and to the configured default symbol in the
  long-only variant. The handler of \<^verbatim>\<open>part_000\<close> itself does not pass an empty symbol
  on to \<^verbatim>\<open>normalizeSymbol\<close>: it takes the default symbol instead.
\<close>

theorem C5_normalize_examples:
  "normalizeSymbol (Some ''btcusdt'') = Some ''BTC/USDT'' \<and>
   normalizeSymbol (Some ''eth-usdt'') = Some ''ETH/USDT'' \<and>
   normalizeSymbol (Some '''') = None \<and>
   normalizeSymbol_long dflt (Some ''btcusdt'') = ''BTC/USDT'' \<and>
   normalizeSymbol_long dflt (Some ''eth-usdt'') = ''ETH/USDT'' \<and>
   normalizeSymbol_long dflt (Some '''') = dflt \<and>
   symbolOf cfg rt (JObj [(''action'', JStr a), (''symbol'', JStr '''')])
     = Inr (Some (DEFAULT_SYMBOL cfg))"
proof -
  have btc: "normalizeCore ''btcusdt'' = ''BTC/USDT''"
    by code_simp
  have eth: "normalizeCore ''eth-usdt'' = ''ETH/USDT''"
    by code_simp
  show ?thesis
    by (simp add: btc eth symbolOf_def)
qed

section \<open>Properties of the position sizer\<close>

lemma enforceMin_cases: "enforceMin mk a = a \<or> enforceMin mk a = Num 0"
  by (simp add: enforceMin_def split: option.splits jsnum.splits)

lemma enforceMin_below:
  assumes "truthyVal (limits_amount_min m) = Some minAmt" and "0 < x" and "x < minAmt"
  shows "enforceMin (Some m) (Num x) = Num 0"
  using assms by (simp add: enforceMin_def)

lemma enforceMin_no_minimum:
  "enforceMin None a = a"
  "truthyVal (limits_amount_min m) = None \<Longrightarrow> enforceMin (Some m) a = a"
  by (simp_all add: enforceMin_def)

text \<open>The sizer throws in two places only: when the balance call throws, and when the
  ticker gives no price. Otherwise it returns this record.\<close>

lemma computeAllInAmounts_returns:
  assumes "fetchBalance ex = Inr bal"
      and "tickerPrice (fetchTicker ex smb) = Some p"
      and "smb = resolveSymbol ex s"
      and "mk = lookupMarket ex smb"
      and "rb = rawBuy cfg (freeOf bal (snd (baseQuote mk smb))) p"
      and "rs = rawSell cfg (freeOf bal (fst (baseQuote mk smb)))"
  shows "computeAllInAmounts cfg ex s =
     Inr \<lparr> symbol = snd (snd (roundAmounts ex smb rb rs)),
           sr_base = fst (baseQuote mk smb),
           sr_quote = snd (baseQuote mk smb),
           price = p,
           buyAmount = enforceMin mk (fst (roundAmounts ex smb rb rs)),
           sellAmount = enforceMin mk (fst (snd (roundAmounts ex smb rb rs))),
           freeQuote = freeOf bal (snd (baseQuote mk smb)),
           freeBase = freeOf bal (fst (baseQuote mk smb)),
           rawBuyAmount = rb,
           rawSellAmount = rs \<rparr>"
  using assms by (simp add: computeAllInAmounts_def Let_def split: prod.splits)

lemma computeAllInAmounts_Inr_iff:
  "(\<exists>r. computeAllInAmounts cfg ex s = Inr r) \<longleftrightarrow>
   (\<exists>bal p. fetchBalance ex = Inr bal \<and> tickerPrice (fetchTicker ex (resolveSymbol ex s)) = Some p)"
  by (auto simp: computeAllInAmounts_def Let_def split: prod.splits sum.splits option.splits)

lemma tickerPrice_nonzero: "tickerPrice t = Some p \<Longrightarrow> p \<noteq> 0"
proof -
  have tv: "\<And>v r. truthyVal v = Some r \<Longrightarrow> r \<noteq> 0"
    by (erule truthyVal.elims) (auto split: if_splits)
  assume "tickerPrice t = Some p"
  then show ?thesis
    by (auto simp: tickerPrice_def orElse_def split: option.splits dest: tv)
qed

text \<open>
  Claim C1. Whenever the sizer returns, the raw buy quantity of its result is
  \<open>freeQuote \<times> safetyBuffer / price\<close>, where \<open>freeQuote\<close> is the free quote balance
  read from the fetched balance and \<open>price\<close> the price read from the fetched ticker
  (which is not zero); it is multiplied by the leverage factor as well exactly when the
  configured market type is \<^verbatim>\<open>swap\<close> and leverage is enabled.
\<close>

theorem C1_raw_buy_quantity:
  assumes ret: "computeAllInAmounts cfg ex s = Inr r"
      and sb: "SAFETY_BUFFER cfg = Num safetyBuffer"
  shows "(\<exists>bal. fetchBalance ex = Inr bal \<and> freeQuote r = freeOf bal (sr_quote r)) \<and>
         tickerPrice (fetchTicker ex (resolveSymbol ex s)) = Some (price r) \<and>
         price r \<noteq> 0 \<and>
         (\<not> (EXCHANGE_TYPE cfg = ''swap'' \<and> USE_LEVERAGE_FOR_SWAPS cfg) \<longrightarrow>
            rawBuyAmount r = Num (freeQuote r * safetyBuffer / price r)) \<and>
         (EXCHANGE_TYPE cfg = ''swap'' \<and> USE_LEVERAGE_FOR_SWAPS cfg \<longrightarrow>
            (\<forall>leverage. LEVERAGE cfg = Num leverage \<longrightarrow>
               rawBuyAmount r = Num (freeQuote r * safetyBuffer / price r * leverage)))"
proof -
  from ret obtain bal p where bal: "fetchBalance ex = Inr bal"
    and p: "tickerPrice (fetchTicker ex (resolveSymbol ex s)) = Some p"
    using computeAllInAmounts_Inr_iff [of cfg ex s] by blast
  note r = ret [unfolded computeAllInAmounts_returns [OF bal p refl refl refl refl, of cfg],
      simplified, symmetric]
  have fq: "freeQuote r = freeOf bal (sr_quote r)" and pr: "price r = p"
    by (simp_all add: r)
  have raw: "rawBuyAmount r = rawBuy cfg (freeQuote r) (price r)"
    by (simp add: r)
  have "price r \<noteq> 0"
    using tickerPrice_nonzero [OF p] pr by simp
  moreover have "\<not> (EXCHANGE_TYPE cfg = ''swap'' \<and> USE_LEVERAGE_FOR_SWAPS cfg) \<longrightarrow>
            rawBuyAmount r = Num (freeQuote r * safetyBuffer / price r)"
    by (auto simp: raw rawBuy_def sb)
  moreover have "EXCHANGE_TYPE cfg = ''swap'' \<and> USE_LEVERAGE_FOR_SWAPS cfg \<longrightarrow>
            (\<forall>leverage. LEVERAGE cfg = Num leverage \<longrightarrow>
               rawBuyAmount r = Num (freeQuote r * safetyBuffer / price r * leverage))"
    by (auto simp: raw rawBuy_def sb)
  ultimately show ?thesis
    using bal fq p pr by auto
qed

text \<open>The examples of claim C1: a free balance of 1000 at a price of 50000 gives a raw
  buy quantity of 0.02 with a safety buffer of 1, of 0.01 with a safety buffer of 0.5,
  and of 0.06 with a safety buffer of 1 and a leverage of 3 enabled.\<close>

theorem C1_raw_buy_quantity_witness:
  "(case computeAllInAmounts exampleConfig (exampleExchange 1000 None) ''BTC/USDT'' of
      Inl e \<Rightarrow> False
    | Inr r \<Rightarrow> freeQuote r = 1000 \<and> price r = 50000 \<and> rawBuyAmount r = Num (2 / 100)) \<and>
   (case computeAllInAmounts (exampleConfig \<lparr> SAFETY_BUFFER := Num (1 / 2) \<rparr>)
           (exampleExchange 1000 None) ''BTC/USDT'' of
      Inl e \<Rightarrow> False
    | Inr r \<Rightarrow> freeQuote r = 1000 \<and> price r = 50000 \<and> rawBuyAmount r = Num (1 / 100)) \<and>
   (case computeAllInAmounts
           (exampleConfig \<lparr> USE_LEVERAGE_FOR_SWAPS := True, LEVERAGE := Num 3 \<rparr>)
           (exampleExchange 1000 None) ''BTC/USDT'' of
      Inl e \<Rightarrow> False
    | Inr r \<Rightarrow> freeQuote r = 1000 \<and> price r = 50000 \<and> rawBuyAmount r = Num (6 / 100))"
proof -
  let ?ex = "exampleExchange 1000 None"
  have bal: "fetchBalance ?ex = Inr [''USDT'' \<mapsto> \<lparr> free = Some (Num 1000), total = Some (Num 1000) \<rparr>]"
    by (simp add: exampleExchange_def)
  have p: "tickerPrice (fetchTicker ?ex (resolveSymbol ?ex ''BTC/USDT'')) = Some 50000"
    by (simp add: exampleExchange_def tickerPrice_def orElse_def)
  have q: "freeOf [''USDT'' \<mapsto> \<lparr> free = Some (Num 1000), total = Some (Num 1000) \<rparr>]
          (snd (baseQuote (lookupMarket ?ex (resolveSymbol ?ex ''BTC/USDT''))
                  (resolveSymbol ?ex ''BTC/USDT''))) = 1000"
    by (simp add: resolveSymbol_def marketKeys_def lookupMarket_def baseQuote_def freeOf_def
        orElse_def exampleExchange_def exampleMarket_def)
  have fq: "freeQuote r = 1000" if "computeAllInAmounts cfg ?ex ''BTC/USDT'' = Inr r" for cfg r
    using that q by (auto simp: computeAllInAmounts_returns [OF bal p refl refl refl refl])
  have pr: "price r = 50000" if "computeAllInAmounts cfg ?ex ''BTC/USDT'' = Inr r" for cfg r
    using that by (auto simp: computeAllInAmounts_returns [OF bal p refl refl refl refl])
  obtain r1 where r1: "computeAllInAmounts exampleConfig ?ex ''BTC/USDT'' = Inr r1"
    using computeAllInAmounts_Inr_iff bal p by blast
  obtain r2 where r2: "computeAllInAmounts (exampleConfig \<lparr> SAFETY_BUFFER := Num (1 / 2) \<rparr>)
        ?ex ''BTC/USDT'' = Inr r2"
    using computeAllInAmounts_Inr_iff bal p by blast
  obtain r3 where r3: "computeAllInAmounts
        (exampleConfig \<lparr> USE_LEVERAGE_FOR_SWAPS := True, LEVERAGE := Num 3 \<rparr>)
        ?ex ''BTC/USDT'' = Inr r3"
    using computeAllInAmounts_Inr_iff bal p by blast
  have "rawBuyAmount r1 = Num (2 / 100)"
    using C1_raw_buy_quantity [OF r1, of 1] fq [OF r1] pr [OF r1]
    by (simp add: exampleConfig_def)
  moreover have "rawBuyAmount r2 = Num (1 / 100)"
    using C1_raw_buy_quantity [OF r2, of "1 / 2"] fq [OF r2] pr [OF r2]
    by (simp add: exampleConfig_def)
  moreover have "rawBuyAmount r3 = Num (6 / 100)"
    using C1_raw_buy_quantity [OF r3, of 1] fq [OF r3] pr [OF r3]
    by (simp add: exampleConfig_def)
  ultimately show ?thesis
    using fq [OF r1] pr [OF r1] fq [OF r2] pr [OF r2] fq [OF r3] pr [OF r3]
    by (simp add: r1 r2 r3)
qed

text \<open>The same, field by field: the quantities of the result are the raw quantities
  after the rounding step and the minimum-size step.\<close>

lemma computeAllInAmounts_fields:
  assumes "fetchBalance ex = Inr bal"
      and "tickerPrice (fetchTicker ex (resolveSymbol ex s)) = Some p"
  obtains r where "computeAllInAmounts cfg ex s = Inr r"
    and "buyAmount r = enforceMin (lookupMarket ex (resolveSymbol ex s))
           (fst (roundAmounts ex (resolveSymbol ex s) (rawBuyAmount r) (rawSellAmount r)))"
    and "sellAmount r = enforceMin (lookupMarket ex (resolveSymbol ex s))
           (fst (snd (roundAmounts ex (resolveSymbol ex s) (rawBuyAmount r) (rawSellAmount r))))"
    and "symbol r = snd (snd (roundAmounts ex (resolveSymbol ex s) (rawBuyAmount r) (rawSellAmount r)))"
    and "sr_base r = fst (baseQuote (lookupMarket ex (resolveSymbol ex s)) (resolveSymbol ex s))"
    and "sr_quote r = snd (baseQuote (lookupMarket ex (resolveSymbol ex s)) (resolveSymbol ex s))"
    and "price r = p"
    and "rawBuyAmount r = rawBuy cfg (freeQuote r) (price r)"
    and "rawSellAmount r = rawSell cfg (freeBase r)"
proof -
  note ret = computeAllInAmounts_returns [OF assms refl refl refl refl, of cfg]
  show thesis
    by (rule that [OF ret]) simp_all
qed

lemma roundAmounts_roundKey:
  "roundAmounts ex smb b s =
     (case amountToPrecision ex of
        None \<Rightarrow> (b, s, smb)
      | Some atp \<Rightarrow>
          (case roundKey ex smb of
             None \<Rightarrow> (b, s, smb)
           | Some k \<Rightarrow> (fst (roundBoth atp k b s), fst (snd (roundBoth atp k b s)),
                        if snd (snd (roundBoth atp k b s)) then k else smb)))"
  by (auto simp: roundAmounts_def roundKey_def split: option.splits prod.splits)

text \<open>
  Claim C2. When the market of the resolved symbol declares a minimum order amount, the
  sizer, once balance and price are fetched, returns a result in which a quantity that
  is positive and below the minimum after the rounding step is 0, and every other
  quantity is as the rounding step left it.
\<close>

theorem C2_minimum_size:
  assumes bal: "fetchBalance ex = Inr bal"
      and pr: "tickerPrice (fetchTicker ex (resolveSymbol ex s)) = Some p"
      and mk: "lookupMarket ex (resolveSymbol ex s) = Some m"
      and mn: "truthyVal (limits_amount_min m) = Some minAmt"
  shows "\<exists>r. computeAllInAmounts cfg ex s = Inr r \<and>
           rawBuyAmount r = rawBuy cfg (freeQuote r) (price r) \<and>
           rawSellAmount r = rawSell cfg (freeBase r) \<and>
           (case roundAmounts ex (resolveSymbol ex s) (rawBuyAmount r) (rawSellAmount r) of
              (roundedBuy, roundedSell, key) \<Rightarrow>
                buyAmount r =
                  (case roundedBuy of
                     NaN \<Rightarrow> NaN
                   | Num x \<Rightarrow> if 0 < x \<and> x < minAmt then Num 0 else Num x) \<and>
                sellAmount r =
                  (case roundedSell of
                     NaN \<Rightarrow> NaN
                   | Num x \<Rightarrow> if 0 < x \<and> x < minAmt then Num 0 else Num x))"
proof -
  obtain r where ret: "computeAllInAmounts cfg ex s = Inr r"
    and buy: "buyAmount r = enforceMin (lookupMarket ex (resolveSymbol ex s))
           (fst (roundAmounts ex (resolveSymbol ex s) (rawBuyAmount r) (rawSellAmount r)))"
    and sell: "sellAmount r = enforceMin (lookupMarket ex (resolveSymbol ex s))
           (fst (snd (roundAmounts ex (resolveSymbol ex s) (rawBuyAmount r) (rawSellAmount r))))"
    and rawb: "rawBuyAmount r = rawBuy cfg (freeQuote r) (price r)"
    and raws: "rawSellAmount r = rawSell cfg (freeBase r)"
    using computeAllInAmounts_fields [OF bal pr] by metis
  have em: "enforceMin (Some m) a =
      (case a of NaN \<Rightarrow> NaN | Num x \<Rightarrow> if 0 < x \<and> x < minAmt then Num 0 else Num x)" for a
    using mn by (simp add: enforceMin_def split: jsnum.splits)
  have enforced: "case roundAmounts ex (resolveSymbol ex s) (rawBuyAmount r) (rawSellAmount r) of
          (roundedBuy, roundedSell, key) \<Rightarrow>
            buyAmount r =
              (case roundedBuy of
                 NaN \<Rightarrow> NaN
               | Num x \<Rightarrow> if 0 < x \<and> x < minAmt then Num 0 else Num x) \<and>
            sellAmount r =
              (case roundedSell of
                 NaN \<Rightarrow> NaN
               | Num x \<Rightarrow> if 0 < x \<and> x < minAmt then Num 0 else Num x)"
    using buy sell by (simp add: mk em split: prod.splits)
  show ?thesis
    by (intro exI [of _ r] conjI) (rule ret, rule rawb, rule raws, rule enforced)
qed

text \<open>The example of claim C2: with a minimum order amount of 0.001, a free balance
  of 27.5 at a price of 50000 gives the raw quantity 0.00055, which four decimals round to
  0.0005; the sizer returns a result with the buy quantity 0.\<close>

theorem C2_minimum_size_witness:
  "roundAmounts (exampleExchange (275 / 10) (Some (truncateTo 4))) ''BTC/USDT''
       (Num (55 / 100000)) (Num 0)
     = (Num (5 / 10000), Num 0, ''BTC/USDT'') \<and>
   computeAllInAmounts exampleConfig (exampleExchange (275 / 10) (Some (truncateTo 4))) ''BTC/USDT''
     = Inr \<lparr> symbol = ''BTC/USDT'', sr_base = Some ''BTC'', sr_quote = Some ''USDT'',
             price = 50000, buyAmount = Num 0, sellAmount = Num 0,
             freeQuote = 275 / 10, freeBase = 0,
             rawBuyAmount = Num (55 / 100000), rawSellAmount = Num 0 \<rparr>"
proof -
  let ?ex = "exampleExchange (275 / 10) (Some (truncateTo 4))"
  have smb: "resolveSymbol ?ex ''BTC/USDT'' = ''BTC/USDT''"
    by (simp add: resolveSymbol_def marketKeys_def exampleExchange_def)
  have bal: "fetchBalance ?ex =
      Inr [''USDT'' \<mapsto> \<lparr> free = Some (Num (275 / 10)), total = Some (Num (275 / 10)) \<rparr>]"
    by (simp add: exampleExchange_def)
  have p: "tickerPrice (fetchTicker ?ex (resolveSymbol ?ex ''BTC/USDT'')) = Some 50000"
    by (simp add: exampleExchange_def tickerPrice_def orElse_def)
  have mk: "lookupMarket ?ex (resolveSymbol ?ex ''BTC/USDT'') = Some exampleMarket"
    unfolding smb by (simp add: lookupMarket_def exampleExchange_def)
  have mn: "truthyVal (limits_amount_min exampleMarket) = Some (1 / 1000)"
    by (simp add: exampleMarket_def)
  have run: "computeAllInAmounts exampleConfig ?ex ''BTC/USDT''
     = Inr \<lparr> symbol = ''BTC/USDT'', sr_base = Some ''BTC'', sr_quote = Some ''USDT'',
             price = 50000, buyAmount = Num 0, sellAmount = Num 0,
             freeQuote = 275 / 10, freeBase = 0,
             rawBuyAmount = Num (55 / 100000), rawSellAmount = Num 0 \<rparr>"
    by code_simp
  have rounded: "roundAmounts ?ex ''BTC/USDT'' (Num (55 / 100000)) (Num 0)
     = (Num (5 / 10000), Num 0, ''BTC/USDT'')"
    by code_simp
  from C2_minimum_size [OF bal p mk mn, of exampleConfig] run rounded
  show ?thesis
    by (simp add: smb)
qed

text \<open>
  Claim C8, by counterexample. The exchange rounds to three decimals and throws on a
  result of zero. The buy quantity 0.02468 is rounded to 0.024; then the call for the
  sell quantity 0 throws. The sizer returns, but its buy quantity is the rounded one,
  not the raw one.
\<close>

theorem C8_rounding_failure_counterexample:
  "truncateTo 3 ''BTC/USDT'' (Num 0) = None \<and>
   computeAllInAmounts exampleConfig (exampleExchange 1234 (Some (truncateTo 3))) ''BTC/USDT''
     = Inr \<lparr> symbol = ''BTC/USDT'', sr_base = Some ''BTC'', sr_quote = Some ''USDT'',
             price = 50000, buyAmount = Num (24 / 1000), sellAmount = Num 0,
             freeQuote = 1234, freeBase = 0,
             rawBuyAmount = Num (2468 / 100000), rawSellAmount = Num 0 \<rparr> \<and>
   Num (24 / 1000) \<noteq> Num (2468 / 100000)"
  by code_simp

text \<open>
  Claim C8, as amended. When the amount-precision function throws, the sizer does not
  abort: with balance and price fetched it returns a result. If the call for the buy
  quantity throws, both quantities go unrounded into the minimum-size step; if only the
  call for the sell quantity throws, the buy quantity keeps its rounded value and the
  sell quantity goes unrounded into that step. The minimum-size step leaves a quantity
  as it is or sets it to 0.
\<close>

theorem C8_rounding_failure:
  assumes bal: "fetchBalance ex = Inr bal"
      and pr: "tickerPrice (fetchTicker ex (resolveSymbol ex s)) = Some p"
      and atp: "amountToPrecision ex = Some atp"
      and key: "roundKey ex (resolveSymbol ex s) = Some k"
  shows "\<exists>r. computeAllInAmounts cfg ex s = Inr r \<and>
           rawBuyAmount r = rawBuy cfg (freeQuote r) (price r) \<and>
           rawSellAmount r = rawSell cfg (freeBase r) \<and>
           (atp k (rawBuyAmount r) = None \<longrightarrow>
              buyAmount r = enforceMin (lookupMarket ex (resolveSymbol ex s)) (rawBuyAmount r) \<and>
              sellAmount r = enforceMin (lookupMarket ex (resolveSymbol ex s)) (rawSellAmount r) \<and>
              (buyAmount r = rawBuyAmount r \<or> buyAmount r = Num 0) \<and>
              (sellAmount r = rawSellAmount r \<or> sellAmount r = Num 0)) \<and>
           (\<forall>roundedBuy. atp k (rawBuyAmount r) = Some roundedBuy \<and>
                          atp k (rawSellAmount r) = None \<longrightarrow>
              buyAmount r = enforceMin (lookupMarket ex (resolveSymbol ex s)) roundedBuy \<and>
              sellAmount r = enforceMin (lookupMarket ex (resolveSymbol ex s)) (rawSellAmount r) \<and>
              (buyAmount r = roundedBuy \<or> buyAmount r = Num 0) \<and>
              (sellAmount r = rawSellAmount r \<or> sellAmount r = Num 0))"
proof -
  let ?mk = "lookupMarket ex (resolveSymbol ex s)"
  obtain r where ret: "computeAllInAmounts cfg ex s = Inr r"
    and buy: "buyAmount r = enforceMin ?mk
           (fst (roundAmounts ex (resolveSymbol ex s) (rawBuyAmount r) (rawSellAmount r)))"
    and sell: "sellAmount r = enforceMin ?mk
           (fst (snd (roundAmounts ex (resolveSymbol ex s) (rawBuyAmount r) (rawSellAmount r))))"
    and rawb: "rawBuyAmount r = rawBuy cfg (freeQuote r) (price r)"
    and raws: "rawSellAmount r = rawSell cfg (freeBase r)"
    using computeAllInAmounts_fields [OF bal pr] by metis
  let ?rb = "rawBuyAmount r" and ?rs = "rawSellAmount r"
  have ra: "roundAmounts ex (resolveSymbol ex s) ?rb ?rs =
      (fst (roundBoth atp k ?rb ?rs), fst (snd (roundBoth atp k ?rb ?rs)),
       if snd (snd (roundBoth atp k ?rb ?rs)) then k else resolveSymbol ex s)"
    by (simp add: roundAmounts_roundKey atp key)
  have first: "buyAmount r = enforceMin ?mk ?rb \<and> sellAmount r = enforceMin ?mk ?rs"
    if "atp k ?rb = None"
    using that by (simp add: buy sell ra roundBoth_def)
  have second: "buyAmount r = enforceMin ?mk b' \<and> sellAmount r = enforceMin ?mk ?rs"
    if "atp k ?rb = Some b'" and "atp k ?rs = None" for b'
    using that by (simp add: buy sell ra roundBoth_def)
  have c1: "atp k ?rb = None \<longrightarrow>
              buyAmount r = enforceMin ?mk ?rb \<and> sellAmount r = enforceMin ?mk ?rs \<and>
              (buyAmount r = ?rb \<or> buyAmount r = Num 0) \<and>
              (sellAmount r = ?rs \<or> sellAmount r = Num 0)"
    using first enforceMin_cases [of ?mk ?rb] enforceMin_cases [of ?mk ?rs] by auto
  have c2: "atp k ?rb = Some b' \<and> atp k ?rs = None \<longrightarrow>
              buyAmount r = enforceMin ?mk b' \<and> sellAmount r = enforceMin ?mk ?rs \<and>
              (buyAmount r = b' \<or> buyAmount r = Num 0) \<and>
              (sellAmount r = ?rs \<or> sellAmount r = Num 0)" for b'
    using second [of b'] enforceMin_cases [of ?mk b'] enforceMin_cases [of ?mk ?rs] by auto
  show ?thesis
    by (intro exI [of _ r] conjI allI) (rule ret, rule rawb, rule raws, rule c1, rule c2)
qed

text \<open>Both cases of claim C8 as amended. With an amount precision that always throws,
  the quantities 0.02468 and 0 are returned unrounded. With one that truncates to three
  decimals and throws on zero, the buy quantity is returned as 0.024.\<close>

theorem C8_rounding_failure_witness:
  "computeAllInAmounts exampleConfig (exampleExchange 1234 (Some alwaysThrows)) ''BTC/USDT''
     = Inr \<lparr> symbol = ''BTC/USDT'', sr_base = Some ''BTC'', sr_quote = Some ''USDT'',
             price = 50000, buyAmount = Num (2468 / 100000), sellAmount = Num 0,
             freeQuote = 1234, freeBase = 0,
             rawBuyAmount = Num (2468 / 100000), rawSellAmount = Num 0 \<rparr> \<and>
   computeAllInAmounts exampleConfig (exampleExchange 1234 (Some (truncateTo 3))) ''BTC/USDT''
     = Inr \<lparr> symbol = ''BTC/USDT'', sr_base = Some ''BTC'', sr_quote = Some ''USDT'',
             price = 50000, buyAmount = Num (24 / 1000), sellAmount = Num 0,
             freeQuote = 1234, freeBase = 0,
             rawBuyAmount = Num (2468 / 100000), rawSellAmount = Num 0 \<rparr>"
proof -
  let ?bal = "[''USDT'' \<mapsto> \<lparr> free = Some (Num 1234), total = Some (Num 1234) \<rparr>]"
  have smb: "resolveSymbol (exampleExchange 1234 a) ''BTC/USDT'' = ''BTC/USDT''" for a
    by (simp add: resolveSymbol_def marketKeys_def exampleExchange_def)
  have bal: "fetchBalance (exampleExchange 1234 a) = Inr ?bal" for a
    by (simp add: exampleExchange_def)
  have p: "tickerPrice (fetchTicker (exampleExchange 1234 a)
             (resolveSymbol (exampleExchange 1234 a) ''BTC/USDT'')) = Some 50000" for a
    by (simp add: exampleExchange_def tickerPrice_def orElse_def)
  have atp: "amountToPrecision (exampleExchange 1234 (Some a)) = Some a" for a
    by (simp add: exampleExchange_def)
  have key: "roundKey (exampleExchange 1234 a)
               (resolveSymbol (exampleExchange 1234 a) ''BTC/USDT'') = Some ''BTC/USDT''" for a
    unfolding smb by (simp add: roundKey_def marketKeys_def exampleExchange_def)
  have run1: "computeAllInAmounts exampleConfig (exampleExchange 1234 (Some alwaysThrows)) ''BTC/USDT''
     = Inr \<lparr> symbol = ''BTC/USDT'', sr_base = Some ''BTC'', sr_quote = Some ''USDT'',
             price = 50000, buyAmount = Num (2468 / 100000), sellAmount = Num 0,
             freeQuote = 1234, freeBase = 0,
             rawBuyAmount = Num (2468 / 100000), rawSellAmount = Num 0 \<rparr>"
    by code_simp
  have run2: "computeAllInAmounts exampleConfig (exampleExchange 1234 (Some (truncateTo 3))) ''BTC/USDT''
     = Inr \<lparr> symbol = ''BTC/USDT'', sr_base = Some ''BTC'', sr_quote = Some ''USDT'',
             price = 50000, buyAmount = Num (24 / 1000), sellAmount = Num 0,
             freeQuote = 1234, freeBase = 0,
             rawBuyAmount = Num (2468 / 100000), rawSellAmount = Num 0 \<rparr>"
    by code_simp
  from C8_rounding_failure [OF bal p atp key, where cfg = exampleConfig and atp = alwaysThrows]
       C8_rounding_failure [OF bal p atp key, where cfg = exampleConfig and atp = "truncateTo 3"]
       run1 run2
  show ?thesis
    by simp
qed

text \<open>A symbol without a market entry is left as it is by the reconciliation of lines
  131 to 140.\<close>

lemma lookupMarket_key:
  assumes "k \<in> set (marketKeys ex)"
  shows "lookupMarket ex k \<noteq> None"
proof (cases "markets ex")
  case None
  with assms show ?thesis by (simp add: marketKeys_def)
next
  case (Some ms)
  with assms have "k \<in> fst ` set ms" by (simp add: marketKeys_def)
  then have "map_of ms k \<noteq> None" by (simp add: map_of_eq_None_iff)
  then obtain m where "map_of ms k = Some m" by blast
  with Some show ?thesis by (simp add: lookupMarket_def)
qed

lemma find_Some_member: "find P xs = Some x \<Longrightarrow> x \<in> set xs"
  by (induction xs) (auto split: if_splits)

lemma resolveSymbol_no_market:
  assumes "lookupMarket ex (resolveSymbol ex s) = None"
  shows "resolveSymbol ex s = s"
proof (rule ccontr)
  assume ne: "resolveSymbol ex s \<noteq> s"
  then obtain found where "find (\<lambda>k. k \<in> set [s, replaceFirst CHR ''/'' [] s,
           replaceFirst CHR ''/'' ''-'' s, replaceFirst CHR ''-'' [] (replaceFirst CHR ''/'' [] s)]
         \<or> replaceFirst CHR ''/'' [] k \<in> set [s, replaceFirst CHR ''/'' [] s,
           replaceFirst CHR ''/'' ''-'' s, replaceFirst CHR ''-'' [] (replaceFirst CHR ''/'' [] s)])
        (marketKeys ex) = Some found" and res: "resolveSymbol ex s = found"
    by (auto simp: resolveSymbol_def Let_def split: if_splits option.splits)
  then have "found \<in> set (marketKeys ex)"
    by (auto dest: find_Some_member)
  then have "lookupMarket ex found \<noteq> None"
    by (rule lookupMarket_key)
  with assms res show False by simp
qed

text \<open>An inherited member counts as a market entry wherever the markets are defined.\<close>

lemma lookupMarket_inMarkets:
  assumes "markets ex \<noteq> None" and "inMarkets ex k"
  shows "lookupMarket ex k \<noteq> None"
proof (cases "k \<in> set (marketKeys ex)")
  case True
  then show ?thesis by (rule lookupMarket_key)
next
  case False
  with assms(2) have "k \<in> set objectPrototypeNames"
    by (simp add: inMarkets_def)
  with assms(1) show ?thesis
    by (auto simp: lookupMarket_def split: option.splits)
qed

text \<open>Without a market entry, and with no empty market key, the rounding step of lines
  177 to 195 finds no other key either and leaves the symbol as it is.\<close>

lemma roundKey_no_market:
  assumes none: "lookupMarket ex (resolveSymbol ex s) = None"
      and nokey: "[] \<notin> set (marketKeys ex)"
  shows "roundKey ex s = None \<or> roundKey ex s = Some s"
proof (cases "inMarkets ex s")
  case True
  then show ?thesis by (simp add: roundKey_def)
next
  case notin: False
  let ?tries = "[s, replaceFirst CHR ''/'' [] s, replaceFirst CHR ''/'' ''-'' s,
                 replaceFirst CHR ''-'' [] (replaceFirst CHR ''/'' [] s)]"
  let ?P = "\<lambda>k. k \<in> set ?tries \<or> replaceFirst CHR ''/'' [] k \<in> set ?tries"
  let ?Q = "\<lambda>k. replaceFirst CHR ''/'' [] k = replaceFirst CHR ''/'' [] s"
  have "find ?Q (marketKeys ex) = None"
  proof (rule ccontr)
    assume "find ?Q (marketKeys ex) \<noteq> None"
    then obtain k where k: "k \<in> set (marketKeys ex)" and "?Q k"
      by (auto simp: find_None_iff)
    then have "?P k"
      by simp
    with k have "find ?P (marketKeys ex) \<noteq> None"
      by (auto simp: find_None_iff)
    then obtain found where f: "find ?P (marketKeys ex) = Some found"
      by blast
    then have mem: "found \<in> set (marketKeys ex)"
      by (rule find_Some_member)
    with nokey have "found \<noteq> []"
      by auto
    moreover from k have "markets ex \<noteq> None"
      by (cases "markets ex") (auto simp: marketKeys_def)
    ultimately have "resolveSymbol ex s = found"
      using notin f by (simp add: resolveSymbol_def Let_def)
    with none lookupMarket_key [OF mem] show False
      by simp
  qed
  with notin show ?thesis
    by (simp add: roundKey_def)
qed

lemma roundAmounts_no_market:
  assumes "lookupMarket ex (resolveSymbol ex s) = None" and "[] \<notin> set (marketKeys ex)"
  shows "snd (snd (roundAmounts ex s b a)) = s"
  using roundKey_no_market [OF assms]
  by (auto simp: roundAmounts_roundKey split: option.splits)

lemma splitOn_nonempty: "splitOn c s \<noteq> []"
  by (induction s) (auto split: list.splits)

lemma splitOn_no_separator: "c \<notin> set s \<Longrightarrow> splitOn c s = [s]"
  by (induction s) auto

lemma splitOn_first_separator: "c \<notin> set b \<Longrightarrow> splitOn c (b @ c # q) = b # splitOn c q"
  by (induction b) (auto split: list.splits simp: splitOn_nonempty)

text \<open>A canonical symbol is a base and a quote around its one slash, and is not the
  name of an inherited member.\<close>

lemma canonicalSymbol_parts:
  assumes "canonicalSymbol s"
  obtains b q where "s = b @ ''/'' @ q" and "CHR ''/'' \<notin> set b" and "CHR ''/'' \<notin> set q"
proof -
  from assms have "count_list s CHR ''/'' = Suc 0"
    by (simp add: canonicalSymbol_def)
  then obtain b q where "s = b @ CHR ''/'' # q" and "CHR ''/'' \<notin> set b"
    and "count_list q CHR ''/'' = 0"
    using count_list_Suc_split_first [of s "CHR ''/''" 0] by blast
  then show thesis
    using that [of b q] by (simp add: count_list_0_iff)
qed

lemma canonicalSymbol_not_inherited:
  assumes "canonicalSymbol s"
  shows "s \<notin> set objectPrototypeNames"
proof
  assume "s \<in> set objectPrototypeNames"
  then have "count_list s CHR ''/'' = 0"
    by (auto simp: objectPrototypeNames_def)
  with assms show False
    by (simp add: canonicalSymbol_def)
qed

text \<open>
  Claim C9, by counterexample. The exchange lists no market for the canonical symbol
  \<^verbatim>\<open>FOO/BAR\<close> and its ticker call is rejected: the sizer throws
  \<^verbatim>\<open>Cannot fetch price for symbol FOO/BAR\<close> and returns no result.
\<close>

theorem C9_no_metadata_counterexample:
  "canonicalSymbol ''FOO/BAR'' \<and>
   lookupMarket noTickerExchange (resolveSymbol noTickerExchange ''FOO/BAR'') = None \<and>
   computeAllInAmounts exampleConfig noTickerExchange ''FOO/BAR''
     = Inl (PriceUnavailable ''FOO/BAR'')"
  by code_simp

text \<open>
  Claim C9, as amended. For every canonical symbol without a market entry, neither
  directly nor by reconciliation, and provided the balance call succeeds and the ticker
  gives a price, the sizer returns a result without throwing, and the base and the
  quote of the result are the two parts of the literal symbol split at its slash. When
  no market key is the empty string, the symbol of the result is the symbol as given.
\<close>

theorem C9_no_metadata:
  assumes canon: "canonicalSymbol s"
      and bal: "fetchBalance ex = Inr bal"
      and pr: "tickerPrice (fetchTicker ex s) = Some p"
      and none: "lookupMarket ex (resolveSymbol ex s) = None"
  shows "\<exists>r. computeAllInAmounts cfg ex s = Inr r \<and>
           sr_base r = nthOpt (splitOn CHR ''/'' s) 0 \<and>
           sr_quote r = nthOpt (splitOn CHR ''/'' s) 1 \<and>
           (\<exists>b q. s = b @ ''/'' @ q \<and> CHR ''/'' \<notin> set b \<and> CHR ''/'' \<notin> set q \<and>
                  sr_base r = Some b \<and> sr_quote r = Some q) \<and>
           ([] \<notin> set (marketKeys ex) \<longrightarrow> symbol r = s)"
proof -
  have smb: "resolveSymbol ex s = s"
    using none by (rule resolveSymbol_no_market)
  have pr': "tickerPrice (fetchTicker ex (resolveSymbol ex s)) = Some p"
    using pr by (simp add: smb)
  obtain r where ret: "computeAllInAmounts cfg ex s = Inr r"
    and b: "sr_base r = fst (baseQuote (lookupMarket ex (resolveSymbol ex s)) (resolveSymbol ex s))"
    and q: "sr_quote r = snd (baseQuote (lookupMarket ex (resolveSymbol ex s)) (resolveSymbol ex s))"
    and sy: "symbol r =
        snd (snd (roundAmounts ex (resolveSymbol ex s) (rawBuyAmount r) (rawSellAmount r)))"
    using computeAllInAmounts_fields [OF bal pr'] by metis
  have none': "lookupMarket ex s = None"
    using none by (simp add: smb)
  have b': "sr_base r = nthOpt (splitOn CHR ''/'' s) 0"
    and q': "sr_quote r = nthOpt (splitOn CHR ''/'' s) 1"
    by (simp_all add: b q smb none' baseQuote_def Let_def)
  obtain bs qs where parts: "s = bs @ ''/'' @ qs" "CHR ''/'' \<notin> set bs" "CHR ''/'' \<notin> set qs"
    using canon by (rule canonicalSymbol_parts)
  have "sr_base r = Some bs \<and> sr_quote r = Some qs"
    using parts by (simp add: b' q' splitOn_first_separator splitOn_no_separator nthOpt_def)
  with parts have two: "\<exists>b q. s = b @ ''/'' @ q \<and> CHR ''/'' \<notin> set b \<and> CHR ''/'' \<notin> set q \<and>
                  sr_base r = Some b \<and> sr_quote r = Some q"
    by blast
  have same: "[] \<notin> set (marketKeys ex) \<longrightarrow> symbol r = s"
    using roundAmounts_no_market [OF none] by (simp add: sy smb)
  show ?thesis
    by (intro exI [of _ r] conjI) (rule ret, rule b', rule q', rule two, rule same)
qed

text \<open>A run of claim C9 as amended: \<^verbatim>\<open>FOO/BAR\<close>, which the exchange does not list, is
  sized with base \<^verbatim>\<open>FOO\<close> and quote \<^verbatim>\<open>BAR\<close>.\<close>

theorem C9_no_metadata_witness:
  "canonicalSymbol ''FOO/BAR'' \<and>
   lookupMarket (exampleExchange 1000 None) (resolveSymbol (exampleExchange 1000 None) ''FOO/BAR'')
     = None \<and>
   [] \<notin> set (marketKeys (exampleExchange 1000 None)) \<and>
   computeAllInAmounts exampleConfig (exampleExchange 1000 None) ''FOO/BAR''
     = Inr \<lparr> symbol = ''FOO/BAR'', sr_base = Some ''FOO'', sr_quote = Some ''BAR'',
             price = 50000, buyAmount = Num 0, sellAmount = Num 0,
             freeQuote = 0, freeBase = 0,
             rawBuyAmount = Num 0, rawSellAmount = Num 0 \<rparr>"
proof -
  let ?ex = "exampleExchange 1000 None"
  have canon: "canonicalSymbol ''FOO/BAR''"
    by code_simp
  have bal: "fetchBalance ?ex =
      Inr [''USDT'' \<mapsto> \<lparr> free = Some (Num 1000), total = Some (Num 1000) \<rparr>]"
    by (simp add: exampleExchange_def)
  have p: "tickerPrice (fetchTicker ?ex ''FOO/BAR'') = Some 50000"
    by (simp add: exampleExchange_def tickerPrice_def orElse_def)
  have none: "lookupMarket ?ex (resolveSymbol ?ex ''FOO/BAR'') = None"
    by code_simp
  have keys: "[] \<notin> set (marketKeys ?ex)"
    by (simp add: marketKeys_def exampleExchange_def)
  have run: "computeAllInAmounts exampleConfig ?ex ''FOO/BAR''
     = Inr \<lparr> symbol = ''FOO/BAR'', sr_base = Some ''FOO'', sr_quote = Some ''BAR'',
             price = 50000, buyAmount = Num 0, sellAmount = Num 0,
             freeQuote = 0, freeBase = 0,
             rawBuyAmount = Num 0, rawSellAmount = Num 0 \<rparr>"
    by code_simp
  from C9_no_metadata [OF canon bal p none, of exampleConfig] canon none keys run
  show ?thesis
    by simp
qed

section \<open>Symbol normalisation: general properties\<close>

subsection \<open>Characters\<close>

lemma of_char_toUpperChar:
  "(of_char (toUpperChar c) :: nat) =
     (if 97 \<le> (of_char c :: nat) \<and> (of_char c :: nat) \<le> 122 then of_char c - 32 else of_char c)"
  by (auto simp: toUpperChar_def Let_def)

lemma toUpperChar_idem: "toUpperChar (toUpperChar c) = toUpperChar c"
proof -
  have "(of_char (toUpperChar (toUpperChar c)) :: nat) = of_char (toUpperChar c)"
    by (auto simp: of_char_toUpperChar)
  then show ?thesis
    by (simp only: of_char_eq_iff)
qed

lemma isSpace_toUpperChar: "isSpace (toUpperChar c) = isSpace c"
  by (auto simp: isSpace_def Let_def of_char_toUpperChar)

text \<open>The three separator characters are not letters and not white space.\<close>

lemma toUpperChar_separator:
  assumes "d = CHR ''/'' \<or> d = CHR ''-'' \<or> d = CHR ''_''"
  shows "toUpperChar c = d \<longleftrightarrow> c = d"
proof -
  have "toUpperChar c = d \<longleftrightarrow> (of_char (toUpperChar c) :: nat) = of_char d"
    by (simp only: of_char_eq_iff)
  also have "\<dots> \<longleftrightarrow> (of_char c :: nat) = of_char d"
    using assms by (auto simp: of_char_toUpperChar)
  also have "\<dots> \<longleftrightarrow> c = d"
    by (simp only: of_char_eq_iff)
  finally show ?thesis .
qed


lemma separator_not_space:
  "\<not> isSpace CHR ''/''" "\<not> isSpace CHR ''-''" "\<not> isSpace CHR ''_''"
  by (simp_all add: isSpace_def)

lemma toUpperCase_idem: "toUpperCase (toUpperCase s) = toUpperCase s"
  by (simp add: toUpperCase_def toUpperChar_idem)

lemma count_toUpperCase_separator:
  assumes "d = CHR ''/'' \<or> d = CHR ''-'' \<or> d = CHR ''_''"
  shows "count_list (toUpperCase s) d = count_list s d"
  by (induction s) (simp_all add: toUpperCase_def toUpperChar_separator [OF assms])

subsection \<open>Trimming\<close>

lemma count_dropWhile: "\<not> P c \<Longrightarrow> count_list (dropWhile P s) c = count_list s c"
  by (induction s) auto

lemma count_trim: "\<not> isSpace c \<Longrightarrow> count_list (trim s) c = count_list s c"
  by (simp add: trim_def count_dropWhile)

lemma trim_ends:
  assumes "trim s \<noteq> []"
  shows "\<not> isSpace (hd (trim s)) \<and> \<not> isSpace (last (trim s))"
proof -
  let ?a = "dropWhile isSpace s"
  let ?b = "dropWhile isSpace (rev ?a)"
  have t: "trim s = rev ?b"
    by (simp add: trim_def)
  with assms have b: "?b \<noteq> []"
    by simp
  have a: "?a \<noteq> []"
  proof
    assume h: "?a = []"
    have "?b = dropWhile isSpace (rev [])" by (simp only: h)
    then have "?b = []" by simp
    with b show False ..
  qed
  have "\<not> isSpace (hd ?b)"
    using b by (rule hd_dropWhile)
  then have l: "\<not> isSpace (last (trim s))"
    by (simp add: t last_rev)
  have "rev ?a = takeWhile isSpace (rev ?a) @ ?b"
    by simp
  then have "last (rev ?a) = last ?b"
    using b by (metis last_appendR)
  then have "last ?b = hd ?a"
    by (simp add: last_rev)
  moreover have "\<not> isSpace (hd ?a)"
    using a by (rule hd_dropWhile)
  ultimately have "\<not> isSpace (hd (trim s))"
    by (simp add: t hd_rev)
  with l show ?thesis
    by simp
qed

lemma trim_unchanged:
  assumes "s = [] \<or> (\<not> isSpace (hd s) \<and> \<not> isSpace (last s))"
  shows "trim s = s"
proof (cases "s = []")
  case True
  then show ?thesis by (simp add: trim_def)
next
  case False
  with assms have h: "\<not> isSpace (hd s)" and l: "\<not> isSpace (last s)"
    by simp_all
  have 1: "dropWhile isSpace s = s"
    using h by (simp add: dropWhile_eq_self_iff)
  have "hd (rev s) = last s"
    by (rule hd_rev)
  then have 2: "dropWhile isSpace (rev s) = rev s"
    using l by (simp add: dropWhile_eq_self_iff)
  show ?thesis
    by (simp add: trim_def 1 2)
qed

subsection \<open>Replacing the first occurrence\<close>

lemma replaceFirst_absent: "c \<notin> set s \<Longrightarrow> replaceFirst c r s = s"
  by (induction s) auto

lemma length_replaceFirst: "length (replaceFirst c [d] s) = length s"
  by (induction s) auto

lemma count_replaceFirst_replaced:
  "c \<noteq> d \<Longrightarrow> count_list (replaceFirst c [d] s) c = count_list s c - 1"
  by (induction s) auto

lemma count_replaceFirst_replacement:
  "c \<noteq> d \<Longrightarrow>
   count_list (replaceFirst c [d] s) d = count_list s d + (if c \<in> set s then 1 else 0)"
  by (induction s) auto

lemma count_replaceFirst_other:
  "e \<noteq> c \<Longrightarrow> e \<noteq> d \<Longrightarrow> count_list (replaceFirst c [d] s) e = count_list s e"
  by (induction s) auto

lemma replaceFirst_eq_Nil: "replaceFirst c [d] s = [] \<longleftrightarrow> s = []"
  by (cases s) auto

lemma hd_replaceFirst:
  "s \<noteq> [] \<Longrightarrow> hd (replaceFirst c [d] s) = (if hd s = c then d else hd s)"
  by (cases s) auto

lemma last_replaceFirst:
  "s \<noteq> [] \<Longrightarrow> last (replaceFirst c [d] s) = last s \<or> last (replaceFirst c [d] s) = d"
  by (induction s) (auto simp: replaceFirst_eq_Nil)

lemma replaceFirst_ends:
  assumes "s \<noteq> []" and "\<not> isSpace (hd s)" and "\<not> isSpace (last s)" and "\<not> isSpace d"
  shows "\<not> isSpace (hd (replaceFirst c [d] s)) \<and> \<not> isSpace (last (replaceFirst c [d] s))"
  using assms last_replaceFirst [of s c d] by (auto simp: hd_replaceFirst)

subsection \<open>Inserting the separator\<close>

lemma count_take_drop: "count_list (take n s) c + count_list (drop n s) c = count_list s c"
  by (metis append_take_drop_id count_list_append)

lemma count_insertSep_slash:
  "count_list (insertSep s) CHR ''/'' =
     count_list s CHR ''/'' + (if CHR ''/'' \<notin> set s \<and> 6 \<le> length s then 1 else 0)"
  using count_take_drop [of 3 s "CHR ''/''"] by (simp add: insertSep_def)

lemma count_insertSep_other:
  "c \<noteq> CHR ''/'' \<Longrightarrow> count_list (insertSep s) c = count_list s c"
  using count_take_drop [of 3 s c] by (simp add: insertSep_def)

lemma insertSep_eq_Nil: "insertSep s = [] \<longleftrightarrow> s = []"
  by (auto simp: insertSep_def)

lemma insertSep_ends:
  "s \<noteq> [] \<Longrightarrow> hd (insertSep s) = hd s \<and> last (insertSep s) = last s"
  by (auto simp: insertSep_def hd_append)

lemma insertSep_unchanged:
  assumes "CHR ''/'' \<in> set s \<or> length s < 6"
  shows "insertSep s = s"
  using assms by (auto simp: insertSep_def)

subsection \<open>The whole normalisation\<close>

lemma normalizeCore_eq_Nil: "normalizeCore s = [] \<longleftrightarrow> trim s = []"
  by (simp add: normalizeCore_def toUpperCase_def insertSep_eq_Nil replaceFirst_eq_Nil)

text \<open>The output is in upper case.\<close>

lemma normalizeCore_upper: "toUpperCase (normalizeCore s) = normalizeCore s"
  by (simp add: normalizeCore_def toUpperCase_idem)

text \<open>The output has no white space at its ends, so trimming it again changes nothing.\<close>

lemma trim_normalizeCore: "trim (normalizeCore s) = normalizeCore s"
proof (cases "trim s = []")
  case True
  then have "normalizeCore s = []"
    by (simp add: normalizeCore_eq_Nil)
  then show ?thesis
    by (simp add: trim_def)
next
  case False
  let ?r1 = "replaceFirst CHR ''-'' ''/'' (trim s)"
  let ?r2 = "replaceFirst CHR ''_'' ''/'' ?r1"
  have e0: "\<not> isSpace (hd (trim s)) \<and> \<not> isSpace (last (trim s))"
    using False by (rule trim_ends)
  have n1: "?r1 \<noteq> []"
    using False by (simp add: replaceFirst_eq_Nil)
  have e1: "\<not> isSpace (hd ?r1) \<and> \<not> isSpace (last ?r1)"
    using replaceFirst_ends [OF False, of "CHR ''/''" "CHR ''-''"] e0 separator_not_space
    by simp
  have n2: "?r2 \<noteq> []"
    using n1 by (simp add: replaceFirst_eq_Nil)
  have e2: "\<not> isSpace (hd ?r2) \<and> \<not> isSpace (last ?r2)"
    using replaceFirst_ends [OF n1, of "CHR ''/''" "CHR ''_''"] e1 separator_not_space
    by simp
  have n3: "insertSep ?r2 \<noteq> []"
    using n2 by (simp add: insertSep_eq_Nil)
  have e3: "\<not> isSpace (hd (insertSep ?r2)) \<and> \<not> isSpace (last (insertSep ?r2))"
    using insertSep_ends [OF n2] e2 by simp
  have "\<not> isSpace (hd (normalizeCore s)) \<and> \<not> isSpace (last (normalizeCore s))"
    using n3 e3
    by (simp add: normalizeCore_def toUpperCase_def hd_map last_map isSpace_toUpperChar)
  then show ?thesis
    by (simp add: trim_unchanged)
qed

text \<open>How many of each separator the output has.\<close>

lemma count_normalizeCore_dash:
  "count_list (normalizeCore s) CHR ''-'' = count_list s CHR ''-'' - 1"
  by (simp add: normalizeCore_def count_toUpperCase_separator count_insertSep_other
      count_replaceFirst_other count_replaceFirst_replaced count_trim separator_not_space)

lemma count_normalizeCore_underscore:
  "count_list (normalizeCore s) CHR ''_'' = count_list s CHR ''_'' - 1"
  by (simp add: normalizeCore_def count_toUpperCase_separator count_insertSep_other
      count_replaceFirst_other count_replaceFirst_replaced count_trim separator_not_space)

lemma set_trim_separator: "\<not> isSpace c \<Longrightarrow> c \<in> set (trim s) \<longleftrightarrow> c \<in> set s"
  using count_trim [of c s] count_list_0_iff [of "trim s" c] count_list_0_iff [of s c]
  by auto

lemma count_normalizeCore_slash:
  "count_list (normalizeCore s) CHR ''/'' =
     count_list s CHR ''/''
     + (if CHR ''-'' \<in> set s then 1 else 0)
     + (if CHR ''_'' \<in> set s then 1 else 0)
     + (if CHR ''/'' \<notin> set s \<and> CHR ''-'' \<notin> set s \<and> CHR ''_'' \<notin> set s \<and> 6 \<le> length (trim s)
        then 1 else 0)"
proof -
  let ?r1 = "replaceFirst CHR ''-'' ''/'' (trim s)"
  let ?r2 = "replaceFirst CHR ''_'' ''/'' ?r1"
  have c1: "count_list ?r1 CHR ''/'' = count_list s CHR ''/'' + (if CHR ''-'' \<in> set s then 1 else 0)"
    by (simp add: count_replaceFirst_replacement count_trim set_trim_separator separator_not_space)
  have u1: "CHR ''_'' \<in> set ?r1 \<longleftrightarrow> CHR ''_'' \<in> set s"
    using count_replaceFirst_other [of "CHR ''_''" "CHR ''-''" "CHR ''/''" "trim s"]
      count_list_0_iff [of ?r1 "CHR ''_''"] count_list_0_iff [of "trim s" "CHR ''_''"]
    by (simp add: set_trim_separator separator_not_space)
  have c2: "count_list ?r2 CHR ''/'' = count_list s CHR ''/''
     + (if CHR ''-'' \<in> set s then 1 else 0) + (if CHR ''_'' \<in> set s then 1 else 0)"
    by (simp add: count_replaceFirst_replacement c1 u1)
  have s2: "CHR ''/'' \<notin> set ?r2 \<longleftrightarrow>
      CHR ''/'' \<notin> set s \<and> CHR ''-'' \<notin> set s \<and> CHR ''_'' \<notin> set s"
    using c2 count_list_0_iff [of ?r2 "CHR ''/''"] count_list_0_iff [of s "CHR ''/''"]
    by (auto split: if_splits)
  have l2: "length ?r2 = length (trim s)"
    by (simp add: length_replaceFirst)
  show ?thesis
    by (simp add: normalizeCore_def count_toUpperCase_separator count_insertSep_slash c2 s2 l2)
qed

lemma length_normalizeCore:
  "length (normalizeCore s) =
     length (trim s)
     + (if CHR ''/'' \<notin> set s \<and> CHR ''-'' \<notin> set s \<and> CHR ''_'' \<notin> set s \<and> 6 \<le> length (trim s)
        then 1 else 0)"
proof -
  let ?r1 = "replaceFirst CHR ''-'' ''/'' (trim s)"
  let ?r2 = "replaceFirst CHR ''_'' ''/'' ?r1"
  have c1: "count_list ?r1 CHR ''/'' = count_list s CHR ''/'' + (if CHR ''-'' \<in> set s then 1 else 0)"
    by (simp add: count_replaceFirst_replacement count_trim set_trim_separator separator_not_space)
  have u1: "CHR ''_'' \<in> set ?r1 \<longleftrightarrow> CHR ''_'' \<in> set s"
    using count_replaceFirst_other [of "CHR ''_''" "CHR ''-''" "CHR ''/''" "trim s"]
      count_list_0_iff [of ?r1 "CHR ''_''"] count_list_0_iff [of "trim s" "CHR ''_''"]
    by (simp add: set_trim_separator separator_not_space)
  have c2: "count_list ?r2 CHR ''/'' = count_list s CHR ''/''
     + (if CHR ''-'' \<in> set s then 1 else 0) + (if CHR ''_'' \<in> set s then 1 else 0)"
    by (simp add: count_replaceFirst_replacement c1 u1)
  have s2: "CHR ''/'' \<notin> set ?r2 \<longleftrightarrow>
      CHR ''/'' \<notin> set s \<and> CHR ''-'' \<notin> set s \<and> CHR ''_'' \<notin> set s"
    using c2 count_list_0_iff [of ?r2 "CHR ''/''"] count_list_0_iff [of s "CHR ''/''"]
    by (auto split: if_splits)
  have l2: "length ?r2 = length (trim s)"
    by (simp add: length_replaceFirst)
  show ?thesis
    using s2 l2 by (auto simp: normalizeCore_def toUpperCase_def insertSep_def)
qed


text \<open>One more application changes nothing when no dash and no underscore is left.\<close>

lemma normalizeCore_idem:
  assumes "count_list s CHR ''-'' \<le> 1" and "count_list s CHR ''_'' \<le> 1"
  shows "normalizeCore (normalizeCore s) = normalizeCore s"
proof -
  let ?out = "normalizeCore s"
  have d: "CHR ''-'' \<notin> set ?out"
    using assms(1) count_normalizeCore_dash [of s] count_list_0_iff [of ?out "CHR ''-''"]
    by simp
  have u: "CHR ''_'' \<notin> set ?out"
    using assms(2) count_normalizeCore_underscore [of s] count_list_0_iff [of ?out "CHR ''_''"]
    by simp
  have ins: "insertSep ?out = ?out"
  proof (cases "CHR ''/'' \<in> set ?out")
    case True
    then show ?thesis
      by (simp add: insertSep_unchanged)
  next
    case False
    then have "count_list ?out CHR ''/'' = 0"
      by simp
    then have "\<not> (CHR ''/'' \<notin> set s \<and> CHR ''-'' \<notin> set s \<and> CHR ''_'' \<notin> set s
                  \<and> 6 \<le> length (trim s))"
      and "CHR ''/'' \<notin> set s \<and> CHR ''-'' \<notin> set s \<and> CHR ''_'' \<notin> set s"
      using count_list_0_iff [of s "CHR ''/''"]
      by (auto simp: count_normalizeCore_slash split: if_splits)
    then have "length ?out < 6"
      by (simp add: length_normalizeCore)
    then show ?thesis
      by (simp add: insertSep_unchanged)
  qed
  have "normalizeCore ?out =
      toUpperCase (insertSep (replaceFirst CHR ''_'' ''/'' (replaceFirst CHR ''-'' ''/'' ?out)))"
    unfolding normalizeCore_def [of ?out] by (simp only: trim_normalizeCore)
  also have "\<dots> = toUpperCase (insertSep ?out)"
    using d u by (simp add: replaceFirst_absent)
  also have "\<dots> = ?out"
    by (simp add: ins normalizeCore_upper)
  finally show ?thesis .
qed

text \<open>
  Claim C3, by counterexample. A string of one space normalises to the empty string,
  and the empty string normalises to \<^verbatim>\<open>null\<close>. And of two dashes only the first is
  replaced each time: \<^verbatim>\<open>a-b-c\<close> normalises to \<^verbatim>\<open>A/B-C\<close>, and that to \<^verbatim>\<open>A/B/C\<close>.
\<close>

theorem C3_idempotence_counterexample:
  "normalizeSymbol (Some '' '') = Some [] \<and>
   normalizeSymbol (normalizeSymbol (Some '' '')) = None \<and>
   normalizeSymbol (Some ''a-b-c'') = Some ''A/B-C'' \<and>
   normalizeSymbol (normalizeSymbol (Some ''a-b-c'')) = Some ''A/B/C''"
  by code_simp

text \<open>
  Claim C3, as amended. Normalising twice gives the same as normalising once for every
  input string that has at most one dash and at most one underscore and is not made of
  white space only: in the variants of \<^verbatim>\<open>part_000\<close> for the empty string too, which
  stays \<^verbatim>\<open>null\<close>, and in the long-only variant for every such string that is not
  empty.
\<close>

theorem C3_normalize_idempotent:
  assumes "count_list s CHR ''-'' \<le> 1" and "count_list s CHR ''_'' \<le> 1"
      and "s = [] \<or> trim s \<noteq> []"
  shows "normalizeSymbol (normalizeSymbol (Some s)) = normalizeSymbol (Some s) \<and>
         (s \<noteq> [] \<longrightarrow>
            normalizeSymbol_long dflt (Some (normalizeSymbol_long dflt (Some s)))
              = normalizeSymbol_long dflt (Some s))"
proof (cases "s = []")
  case True
  then show ?thesis by simp
next
  case False
  with assms(3) have "normalizeCore s \<noteq> []"
    by (simp add: normalizeCore_eq_Nil)
  with False show ?thesis
    by (simp add: normalizeCore_idem [OF assms(1,2)])
qed

theorem C3_normalize_idempotent_witness:
  "count_list ''eth-usdt'' CHR ''-'' \<le> 1 \<and> count_list ''eth-usdt'' CHR ''_'' \<le> 1 \<and>
   trim ''eth-usdt'' \<noteq> [] \<and>
   normalizeSymbol (Some ''eth-usdt'') = Some ''ETH/USDT'' \<and>
   normalizeSymbol (normalizeSymbol (Some ''eth-usdt'')) = Some ''ETH/USDT'' \<and>
   normalizeSymbol_long ''BTC/USDT:USDT'' (Some (normalizeSymbol_long ''BTC/USDT:USDT''
                                                   (Some ''eth-usdt''))) = ''ETH/USDT''"
proof -
  have c: "count_list ''eth-usdt'' CHR ''-'' \<le> 1" "count_list ''eth-usdt'' CHR ''_'' \<le> 1"
    by simp_all
  have t: "trim ''eth-usdt'' \<noteq> []"
    by code_simp
  then have t': "''eth-usdt'' = [] \<or> trim ''eth-usdt'' \<noteq> []"
    by simp
  have n: "normalizeCore ''eth-usdt'' = ''ETH/USDT''"
    by code_simp
  from C3_normalize_idempotent [OF c t', of "''BTC/USDT:USDT''"] c t n
  show ?thesis
    by simp
qed




end
